theory Spec2Isabelle
  imports Complex_Main "HOL-Library.Word" "HOL-Library.AList"
begin

unbundle bit_operations_syntax

section \<open>The byte buffer and the DataView accessors\<close>

text \<open>
  The reader (class \<open>GribReader\<close>) keeps an \<open>ArrayBuffer\<close>, a \<open>DataView\<close> on it and a
  byte cursor \<open>this.offset\<close>.  The buffer is a list of bytes; the cursor and every byte
  offset derived from it are natural numbers (the source only ever adds unsigned
  section lengths to the cursor).  A JavaScript exception is a value of \<open>error\<close>, and a
  function that may throw returns \<open>error + 'a\<close> with \<open>Inl\<close> for the exception.
\<close>

type_synonym byte = "8 word"
type_synonym buffer = "byte list"

datatype error =
    RangeError
  | TypeError
  | InvalidSignature
  | ExpectedSection1
  | UnknownSection nat nat
  | InvalidEndSection
  | OffsetOutside int nat
  | NoMessagesParsed
  | NoGridTemplate

definition ebind :: "error + 'a \<Rightarrow> ('a \<Rightarrow> error + 'b) \<Rightarrow> error + 'b" where
  "ebind m f = (case m of Inl e \<Rightarrow> Inl e | Inr x \<Rightarrow> f x)"

text \<open>\<open>DataView.getUint8(off)\<close>: throws a RangeError outside the buffer.\<close>

definition getUint8 :: "buffer \<Rightarrow> nat \<Rightarrow> error + nat" where
  "getUint8 view off = (if off < length view then Inr (unat (view ! off)) else Inl RangeError)"

text \<open>Big-endian value of a run of bytes.\<close>

definition be_nat :: "byte list \<Rightarrow> nat" where
  "be_nat bs = foldl (\<lambda>acc b. acc * 256 + unat b) 0 bs"

definition get_bytes :: "buffer \<Rightarrow> nat \<Rightarrow> nat \<Rightarrow> error + byte list" where
  "get_bytes view off n =
     (if off + n \<le> length view then Inr (take n (drop off view)) else Inl RangeError)"

definition getUint16 :: "buffer \<Rightarrow> nat \<Rightarrow> error + nat" where
  "getUint16 view off = ebind (get_bytes view off 2) (\<lambda>bs. Inr (be_nat bs))"

definition getUint32 :: "buffer \<Rightarrow> nat \<Rightarrow> error + nat" where
  "getUint32 view off = ebind (get_bytes view off 4) (\<lambda>bs. Inr (be_nat bs))"

text \<open>Two's complement reading of an unsigned \<open>w\<close>-bit value.\<close>

definition to_signed :: "nat \<Rightarrow> nat \<Rightarrow> int" where
  "to_signed w n = (if n < 2 ^ (w - 1) then int n else int n - 2 ^ w)"

definition getInt16 :: "buffer \<Rightarrow> nat \<Rightarrow> error + int" where
  "getInt16 view off = ebind (get_bytes view off 2) (\<lambda>bs. Inr (to_signed 16 (be_nat bs)))"

definition getInt32 :: "buffer \<Rightarrow> nat \<Rightarrow> error + int" where
  "getInt32 view off = ebind (get_bytes view off 4) (\<lambda>bs. Inr (to_signed 32 (be_nat bs)))"

section \<open>JavaScript numbers\<close>

text \<open>
  A JavaScript number is an IEEE 754 double.  The model represents a finite double by the
  real number it denotes and writes the rounding of every arithmetic operation out:
  \<open>+\<close>, \<open>-\<close>, \<open>*\<close> and \<open>/\<close> of the source are the exact operation followed by
  \<open>fl64\<close>, rounding to nearest with ties to even at 53 significant bits, and a store
  into a \<open>Float32Array\<close> is \<open>fl32\<close>, the same at 24 bits.  Gradual underflow is
  modelled (the quantum never goes below the subnormal spacing).  Infinities, NaN and
  the sign of zero are not represented: where the source can produce them the text
  says what the model does instead.
\<close>

fun bit_length :: "nat \<Rightarrow> nat" where
  "bit_length n = (if n = 0 then 0 else Suc (bit_length (n div 2)))"

declare bit_length.simps [simp del]

text \<open>\<open>ilog2 x\<close> is the exponent \<open>e\<close> with \<open>2^e \<le> x < 2^(e+1)\<close>, for \<open>x > 0\<close>.\<close>

definition ilog2 :: "real \<Rightarrow> int" where
  "ilog2 x = (if 1 \<le> x then int (bit_length (nat \<lfloor>x\<rfloor>)) - 1
              else - int (bit_length (nat (\<lceil>1 / x\<rceil> - 1))))"

text \<open>Nearest integer, ties to the even one.\<close>

definition rne :: "real \<Rightarrow> int" where
  "rne y = (let f = \<lfloor>y\<rfloor>; d = y - of_int f
            in if d < 1 / 2 then f
               else if 1 / 2 < d then f + 1
               else if even f then f else f + 1)"

definition round_to :: "nat \<Rightarrow> int \<Rightarrow> real \<Rightarrow> real" where
  "round_to p emin x =
     (if x = 0 then 0
      else (let e = max (ilog2 \<bar>x\<bar>) emin;
                u = 2 powi (e + 1 - int p)
            in of_int (rne (x / u)) * u))"

definition fl64 :: "real \<Rightarrow> real" where
  "fl64 x = round_to 53 (- 1022) x"

definition fl32 :: "real \<Rightarrow> real" where
  "fl32 x = round_to 24 (- 126) x"

definition js_add :: "real \<Rightarrow> real \<Rightarrow> real" where
  "js_add a b = fl64 (a + b)"

definition js_sub :: "real \<Rightarrow> real \<Rightarrow> real" where
  "js_sub a b = fl64 (a - b)"

definition js_mul :: "real \<Rightarrow> real \<Rightarrow> real" where
  "js_mul a b = fl64 (a * b)"

text \<open>Division by zero gives an infinity or NaN in the source; callers test for it.\<close>

definition js_div :: "real \<Rightarrow> real \<Rightarrow> real" where
  "js_div a b = fl64 (a / b)"

text \<open>
  The value of a binary32 bit pattern (sign, 8 exponent bits, 23 fraction bits).  The
  patterns with exponent 255 are the infinities and NaNs; they have no real value and
  the number computed for them here means nothing.
\<close>

definition f32_value :: "nat \<Rightarrow> real" where
  "f32_value n =
     (let s = n div 2 ^ 31;
          e = (n div 2 ^ 23) mod 2 ^ 8;
          f = n mod 2 ^ 23;
          m = (if e = 0 then real f * 2 powi (- 149)
               else real (2 ^ 23 + f) * 2 powi (int e - 150))
      in if s = 1 then - m else m)"

definition getFloat32 :: "buffer \<Rightarrow> nat \<Rightarrow> error + real" where
  "getFloat32 view off = ebind (get_bytes view off 4) (\<lambda>bs. Inr (f32_value (be_nat bs)))"

text \<open>
  \<open>new Uint8Array(buffer, start, len)\<close>: a RangeError when \<open>len\<close> is negative or the
  view would leave the buffer.
\<close>

definition uint8_view :: "buffer \<Rightarrow> nat \<Rightarrow> int \<Rightarrow> error + byte list" where
  "uint8_view view start len =
     (if len < 0 \<or> int start + len > int (length view) then Inl RangeError
      else Inr (take (nat len) (drop start view)))"

section \<open>readBits\<close>

text \<open>
  \<open>readBits(bitOffset, numberOfBits)\<close>.  The accumulator \<open>value\<close> goes through the
  JavaScript operators \<open><<\<close>, \<open>|\<close>, \<open>>>\<close> and \<open>&\<close>, which work on 32-bit integers and
  give a signed 32-bit result: it is a \<open>32 word\<close>, and the function returns its signed
  reading.  \<open>lastByteNeeded\<close> is \<open>Math.floor((bitOffset + numberOfBits - 1) / 8)\<close>,
  which is \<open>-1\<close> for an empty read at bit 0, hence an \<open>int\<close>.
\<close>

function readBits_loop ::
  "buffer \<Rightarrow> nat \<Rightarrow> nat \<Rightarrow> nat \<Rightarrow> nat \<Rightarrow> 32 word \<Rightarrow> error + 32 word" where
  "readBits_loop view byteOffset bitShift numberOfBits bitsRead val =
     (if bitsRead < numberOfBits then
        (let currentByteOffset = byteOffset + (bitShift + bitsRead) div 8;
             currentBitShift = (bitShift + bitsRead) mod 8
         in case getUint8 view currentByteOffset of
              Inl e \<Rightarrow> Inl e
            | Inr byte \<Rightarrow>
               (let bitsAvailable = 8 - currentBitShift;
                    bitsToRead = min (numberOfBits - bitsRead) bitsAvailable;
                    mask = push_bit bitsToRead (1 :: 32 word) - 1;
                    shift = bitsAvailable - bitsToRead
                in readBits_loop view byteOffset bitShift numberOfBits (bitsRead + bitsToRead)
                     (push_bit bitsToRead val OR (drop_bit shift (word_of_nat byte) AND mask))))
      else Inr val)"
  by pat_completeness auto
termination
  by (relation "measure (\<lambda>(view, byteOffset, bitShift, numberOfBits, bitsRead, val).
                  numberOfBits - bitsRead)")
     (auto simp: min_def)

declare readBits_loop.simps [simp del]

definition readBits :: "buffer \<Rightarrow> nat \<Rightarrow> nat \<Rightarrow> error + int" where
  "readBits view bitOffset numberOfBits =
     (let byteOffset = bitOffset div 8;
          bitShift = bitOffset mod 8;
          lastByteNeeded = (int bitOffset + int numberOfBits - 1) div 8
      in if lastByteNeeded \<ge> int (length view)
         then Inl (OffsetOutside lastByteNeeded (length view))
         else ebind (readBits_loop view byteOffset bitShift numberOfBits 0 0)
                (\<lambda>v. Inr (sint v)))"

section \<open>The parsed sections\<close>

text \<open>
  The objects built by the section parsers, one record per object literal of the
  source.  Field names are the source's; \<open>length\<close>, \<open>discipline\<close>, \<open>edition\<close>,
  \<open>totalLength\<close> and \<open>numberOfDataPoints\<close> occur in several objects and carry the
  section as a prefix.  A property that an object may lack is an \<open>option\<close>.
\<close>

record section0 =
  signature :: "nat list"
  s0_discipline :: nat
  s0_edition :: nat
  s0_totalLength :: real

record section1 =
  s1_length :: nat
  centreId :: nat
  subCentreId :: nat
  masterTableVersion :: nat
  localTableVersion :: nat
  significanceOfReferenceTime :: nat
  year :: nat
  month :: nat
  day :: nat
  hour :: nat
  minute :: nat
  second :: nat
  productionStatus :: nat
  typeOfData :: nat

record section2 =
  s2_length :: nat
  localData :: "byte list"

record gridTemplate0 =
  shapeOfEarth :: nat
  scaleFactorOfRadiusOfSphericalEarth :: nat
  scaledValueOfRadiusOfSphericalEarth :: nat
  scaleFactorOfEarthMajorAxis :: nat
  scaledValueOfEarthMajorAxis :: nat
  scaleFactorOfEarthMinorAxis :: nat
  scaledValueOfEarthMinorAxis :: nat
  ni :: nat
  nj :: nat
  basicAngleOfInitialProductionDomain :: nat
  subdivisionsOfBasicAngle :: nat
  latitudeOfFirstGridPoint :: real
  longitudeOfFirstGridPoint :: real
  resolutionAndComponentFlags :: nat
  latitudeOfLastGridPoint :: real
  longitudeOfLastGridPoint :: real
  latitudeOfLastGridPointFromFile :: real
  longitudeOfLastGridPointFromFile :: real
  iDirectionIncrement :: real
  jDirectionIncrement :: real
  scanningMode :: nat

record section3 =
  s3_length :: nat
  source :: nat
  s3_numberOfDataPoints :: nat
  numberOfOctetsForOptional :: nat
  interpretationOfOptional :: nat
  gridDefinitionTemplateNumber :: nat
  gridTemplate :: "gridTemplate0 option"

record section4 =
  s4_length :: nat
  numberOfCoordinateValues :: nat
  productDefinitionTemplateNumber :: nat
  templateData :: "byte list"

text \<open>
  The template object of section 5.  Templates 5.0, 5.2 and 5.3 share the first five
  fields; 5.2 and 5.3 add the group fields (\<open>groups\<close>), and only 5.3 has
  \<open>numberOfOctetsExtraDescriptors\<close>.
\<close>

record group_fields =
  groupSplittingMethod :: nat
  missingValueManagement :: nat
  primaryMissingValue :: real
  secondaryMissingValue :: real
  numberOfGroups :: nat
  referenceForGroupWidths :: nat
  numberOfBitsForGroupWidths :: nat
  referenceForGroupLengths :: nat
  lengthIncrementForGroupLengths :: nat
  trueLengthOfLastGroup :: nat
  numberOfBitsForScaledGroupLengths :: nat
  orderOfSpatialDifferencing :: nat
  numberOfOctetsExtraDescriptors :: "nat option"

record drs_template =
  referenceValue :: real
  binaryScaleFactor :: int
  decimalScaleFactor :: int
  numberOfBits :: nat
  typeOfOriginalFieldValues :: nat
  groups :: "group_fields option"

record section5 =
  s5_length :: nat
  s5_numberOfDataPoints :: nat
  dataRepresentationTemplateNumber :: nat
  template :: "drs_template option"

record section6 =
  s6_length :: nat
  bitMapIndicator :: nat
  bitmap :: "byte list option"

record section7 =
  s7_length :: nat
  data :: "real list option"
  rawData :: "byte list option"

record sections =
  section1 :: section1
  section2 :: "section2 option"
  section3 :: "section3 option"
  section4 :: "section4 option"
  section5 :: "section5 option"
  section6 :: "section6 option"
  section7 :: "section7 option"

record message =
  discipline :: nat
  edition :: nat
  totalLength :: real
  sections :: sections

section \<open>Sections 0 to 6\<close>

text \<open>The character codes of the four bytes at \<open>off\<close> (\<open>String.fromCharCode\<close>).\<close>

definition chars4 :: "buffer \<Rightarrow> nat \<Rightarrow> error + nat list" where
  "chars4 view off =
     ebind (getUint8 view off) (\<lambda>c0.
     ebind (getUint8 view (off + 1)) (\<lambda>c1.
     ebind (getUint8 view (off + 2)) (\<lambda>c2.
     ebind (getUint8 view (off + 3)) (\<lambda>c3.
     Inr [c0, c1, c2, c3]))))"

definition GRIB :: "nat list" where
  "GRIB = [71, 82, 73, 66]"

definition sevens :: "nat list" where
  "sevens = [55, 55, 55, 55]"

text \<open>\<open>readUint64\<close>: two 32-bit halves combined in double arithmetic.\<close>

definition readUint64 :: "buffer \<Rightarrow> nat \<Rightarrow> error + real" where
  "readUint64 view off =
     ebind (getUint32 view off) (\<lambda>high.
     ebind (getUint32 view (off + 4)) (\<lambda>low.
     Inr (js_add (js_mul (real high) 4294967296) (real low))))"

text \<open>
  \<open>parseSection0\<close> returns \<open>null\<close> (here \<open>None\<close>, with the cursor where it was) when
  fewer than 16 bytes are left, and otherwise the section and the advanced cursor.
\<close>

definition parseSection0 :: "buffer \<Rightarrow> nat \<Rightarrow> error + (section0 \<times> nat) option" where
  "parseSection0 view offset =
     (if offset + 16 > length view then Inr None
      else
        ebind (chars4 view offset) (\<lambda>sg.
        if sg \<noteq> GRIB then Inl InvalidSignature
        else
          ebind (getUint8 view (offset + 6)) (\<lambda>d.
          ebind (getUint8 view (offset + 7)) (\<lambda>ed.
          ebind (readUint64 view (offset + 8)) (\<lambda>tl.
          Inr (Some (\<lparr>signature = sg, s0_discipline = d, s0_edition = ed,
                       s0_totalLength = tl\<rparr>, offset + 16)))))))"

definition parseSection1 :: "buffer \<Rightarrow> nat \<Rightarrow> error + section1 \<times> nat" where
  "parseSection1 view offset =
     ebind (getUint32 view offset) (\<lambda>len.
     ebind (getUint8 view (offset + 4)) (\<lambda>sectionNumber.
     if sectionNumber \<noteq> 1 then Inl ExpectedSection1
     else
       ebind (getUint16 view (offset + 5)) (\<lambda>centre.
       ebind (getUint16 view (offset + 7)) (\<lambda>subCentre.
       ebind (getUint8 view (offset + 9)) (\<lambda>master.
       ebind (getUint8 view (offset + 10)) (\<lambda>local.
       ebind (getUint8 view (offset + 11)) (\<lambda>significance.
       ebind (getUint16 view (offset + 12)) (\<lambda>y.
       ebind (getUint8 view (offset + 14)) (\<lambda>mo.
       ebind (getUint8 view (offset + 15)) (\<lambda>d.
       ebind (getUint8 view (offset + 16)) (\<lambda>h.
       ebind (getUint8 view (offset + 17)) (\<lambda>mi.
       ebind (getUint8 view (offset + 18)) (\<lambda>s.
       ebind (getUint8 view (offset + 19)) (\<lambda>status.
       ebind (getUint8 view (offset + 20)) (\<lambda>type.
       Inr (\<lparr>s1_length = len, centreId = centre, subCentreId = subCentre,
              masterTableVersion = master, localTableVersion = local,
              significanceOfReferenceTime = significance,
              year = y, month = mo, day = d, hour = h, minute = mi, second = s,
              productionStatus = status, typeOfData = type\<rparr>,
            offset + len))))))))))))))))"

definition parseSection2 :: "buffer \<Rightarrow> nat \<Rightarrow> error + section2 \<times> nat" where
  "parseSection2 view offset =
     ebind (getUint32 view offset) (\<lambda>len.
     ebind (getUint8 view (offset + 4)) (\<lambda>sectionNumber.
     ebind (uint8_view view (offset + 5) (int len - 5)) (\<lambda>bytes.
     Inr (\<lparr>s2_length = len, localData = bytes\<rparr>, offset + len))))"

text \<open>
  \<open>parseGridTemplate0(offset)\<close>, called with the section's offset plus 14.  The
  latitudes, longitudes and increments are the integers of the file divided by
  \<open>1e6\<close>; the last grid point is recomputed from the first one.
\<close>

definition parseGridTemplate0 :: "buffer \<Rightarrow> nat \<Rightarrow> error + gridTemplate0" where
  "parseGridTemplate0 view offset =
     ebind (getUint32 view (offset + 16)) (\<lambda>ni'.
     ebind (getUint32 view (offset + 20)) (\<lambda>nj'.
     ebind (getInt32 view (offset + 32)) (\<lambda>latFirstRaw.
     ebind (getInt32 view (offset + 36)) (\<lambda>lonFirstRaw.
     ebind (getUint32 view (offset + 49)) (\<lambda>iIncRaw.
     ebind (getUint32 view (offset + 53)) (\<lambda>jIncRaw.
     ebind (getUint8 view (offset + 57)) (\<lambda>scanningMode'.
     ebind (getInt32 view (offset + 41)) (\<lambda>latLastRaw.
     ebind (getInt32 view (offset + 45)) (\<lambda>lonLastRaw.
     ebind (getUint8 view offset) (\<lambda>shape.
     ebind (getUint8 view (offset + 1)) (\<lambda>sfRadius.
     ebind (getUint32 view (offset + 2)) (\<lambda>svRadius.
     ebind (getUint8 view (offset + 6)) (\<lambda>sfMajor.
     ebind (getUint32 view (offset + 7)) (\<lambda>svMajor.
     ebind (getUint8 view (offset + 11)) (\<lambda>sfMinor.
     ebind (getUint32 view (offset + 12)) (\<lambda>svMinor.
     ebind (getUint32 view (offset + 24)) (\<lambda>basicAngle.
     ebind (getUint32 view (offset + 28)) (\<lambda>subdivisions.
     ebind (getUint8 view (offset + 40)) (\<lambda>flags.
     (let latFirst = js_div (of_int latFirstRaw) 1000000;
          lonFirst = js_div (of_int lonFirstRaw) 1000000;
          iIncrement = js_div (real iIncRaw) 1000000;
          jIncrement = js_div (real jIncRaw) 1000000;
          latLastFromFile = js_div (of_int latLastRaw) 1000000;
          lonLastFromFile = js_div (of_int lonLastRaw) 1000000;
          iScansPositively = (word_of_nat scanningMode' AND (0x80 :: 32 word)) = 0;
          jScansPositively = (word_of_nat scanningMode' AND (0x40 :: 32 word)) \<noteq> 0;
          lonLast = js_add lonFirst
                      (js_mul (js_mul (of_int (int ni' - 1)) iIncrement)
                         (if iScansPositively then 1 else - 1));
          latLast = js_add latFirst
                      (js_mul (js_mul (of_int (int nj' - 1)) jIncrement)
                         (if jScansPositively then 1 else - 1))
      in Inr \<lparr>shapeOfEarth = shape,
               scaleFactorOfRadiusOfSphericalEarth = sfRadius,
               scaledValueOfRadiusOfSphericalEarth = svRadius,
               scaleFactorOfEarthMajorAxis = sfMajor,
               scaledValueOfEarthMajorAxis = svMajor,
               scaleFactorOfEarthMinorAxis = sfMinor,
               scaledValueOfEarthMinorAxis = svMinor,
               ni = ni', nj = nj',
               basicAngleOfInitialProductionDomain = basicAngle,
               subdivisionsOfBasicAngle = subdivisions,
               latitudeOfFirstGridPoint = latFirst,
               longitudeOfFirstGridPoint = lonFirst,
               resolutionAndComponentFlags = flags,
               latitudeOfLastGridPoint = latLast,
               longitudeOfLastGridPoint = lonLast,
               latitudeOfLastGridPointFromFile = latLastFromFile,
               longitudeOfLastGridPointFromFile = lonLastFromFile,
               iDirectionIncrement = iIncrement,
               jDirectionIncrement = jIncrement,
               scanningMode = scanningMode'\<rparr>))))))))))))))))))))"

definition parseSection3 :: "buffer \<Rightarrow> nat \<Rightarrow> error + section3 \<times> nat" where
  "parseSection3 view offset =
     ebind (getUint32 view offset) (\<lambda>len.
     ebind (getUint8 view (offset + 4)) (\<lambda>sectionNumber.
     ebind (getUint8 view (offset + 5)) (\<lambda>src.
     ebind (getUint32 view (offset + 6)) (\<lambda>points.
     ebind (getUint8 view (offset + 10)) (\<lambda>octets.
     ebind (getUint8 view (offset + 11)) (\<lambda>interpretation.
     ebind (getUint16 view (offset + 12)) (\<lambda>templateNumber.
     ebind (if templateNumber = 0
            then ebind (parseGridTemplate0 view (offset + 14)) (\<lambda>g. Inr (Some g))
            else Inr None) (\<lambda>grid.
     Inr (\<lparr>s3_length = len, source = src, s3_numberOfDataPoints = points,
            numberOfOctetsForOptional = octets,
            interpretationOfOptional = interpretation,
            gridDefinitionTemplateNumber = templateNumber,
            gridTemplate = grid\<rparr>,
          offset + len)))))))))"

definition parseSection4 :: "buffer \<Rightarrow> nat \<Rightarrow> error + section4 \<times> nat" where
  "parseSection4 view offset =
     ebind (getUint32 view offset) (\<lambda>len.
     ebind (getUint8 view (offset + 4)) (\<lambda>sectionNumber.
     ebind (getUint16 view (offset + 5)) (\<lambda>coordinateValues.
     ebind (getUint16 view (offset + 7)) (\<lambda>templateNumber.
     ebind (uint8_view view (offset + 9) (int len - 9)) (\<lambda>bytes.
     Inr (\<lparr>s4_length = len, numberOfCoordinateValues = coordinateValues,
            productDefinitionTemplateNumber = templateNumber,
            templateData = bytes\<rparr>,
          offset + len))))))"

definition parse_base_fields :: "buffer \<Rightarrow> nat \<Rightarrow> error + drs_template" where
  "parse_base_fields view offset =
     ebind (getFloat32 view (offset + 11)) (\<lambda>r.
     ebind (getInt16 view (offset + 15)) (\<lambda>e.
     ebind (getInt16 view (offset + 17)) (\<lambda>d.
     ebind (getUint8 view (offset + 19)) (\<lambda>bits.
     ebind (getUint8 view (offset + 20)) (\<lambda>type.
     Inr \<lparr>referenceValue = r, binaryScaleFactor = e, decimalScaleFactor = d,
           numberOfBits = bits, typeOfOriginalFieldValues = type, groups = None\<rparr>)))))"

text \<open>
  The group fields of templates 5.2 and 5.3.  For 5.2 the source sets
  \<open>orderOfSpatialDifferencing\<close> to 0 and has no \<open>numberOfOctetsExtraDescriptors\<close>;
  for 5.3 both are read, at offsets 47 and 48.
\<close>

definition parse_group_fields :: "buffer \<Rightarrow> nat \<Rightarrow> bool \<Rightarrow> error + group_fields" where
  "parse_group_fields view offset spatial =
     ebind (getUint8 view (offset + 21)) (\<lambda>splitting.
     ebind (getUint8 view (offset + 22)) (\<lambda>missing.
     ebind (getFloat32 view (offset + 23)) (\<lambda>primary.
     ebind (getFloat32 view (offset + 27)) (\<lambda>secondary.
     ebind (getUint32 view (offset + 31)) (\<lambda>ngroups.
     ebind (getUint8 view (offset + 35)) (\<lambda>refWidths.
     ebind (getUint8 view (offset + 36)) (\<lambda>bitsWidths.
     ebind (getUint32 view (offset + 37)) (\<lambda>refLengths.
     ebind (getUint8 view (offset + 41)) (\<lambda>increment.
     ebind (getUint32 view (offset + 42)) (\<lambda>trueLength.
     ebind (getUint8 view (offset + 46)) (\<lambda>bitsLengths.
     ebind (if spatial then getUint8 view (offset + 47) else Inr 0) (\<lambda>order.
     ebind (if spatial then ebind (getUint8 view (offset + 48)) (\<lambda>n. Inr (Some n))
            else Inr None) (\<lambda>extra.
     Inr \<lparr>groupSplittingMethod = splitting, missingValueManagement = missing,
           primaryMissingValue = primary, secondaryMissingValue = secondary,
           numberOfGroups = ngroups, referenceForGroupWidths = refWidths,
           numberOfBitsForGroupWidths = bitsWidths,
           referenceForGroupLengths = refLengths,
           lengthIncrementForGroupLengths = increment,
           trueLengthOfLastGroup = trueLength,
           numberOfBitsForScaledGroupLengths = bitsLengths,
           orderOfSpatialDifferencing = order,
           numberOfOctetsExtraDescriptors = extra\<rparr>)))))))))))))"

definition parseSection5 :: "buffer \<Rightarrow> nat \<Rightarrow> error + section5 \<times> nat" where
  "parseSection5 view offset =
     ebind (getUint32 view offset) (\<lambda>len.
     ebind (getUint8 view (offset + 4)) (\<lambda>sectionNumber.
     ebind (getUint32 view (offset + 5)) (\<lambda>points.
     ebind (getUint16 view (offset + 9)) (\<lambda>templateNumber.
     ebind (if templateNumber = 0 then
              ebind (parse_base_fields view offset) (\<lambda>t. Inr (Some t))
            else if templateNumber = 2 then
              ebind (parse_base_fields view offset) (\<lambda>t.
              ebind (parse_group_fields view offset False) (\<lambda>g.
              Inr (Some (t\<lparr>groups := Some g\<rparr>))))
            else if templateNumber = 3 then
              ebind (parse_base_fields view offset) (\<lambda>t.
              ebind (parse_group_fields view offset True) (\<lambda>g.
              Inr (Some (t\<lparr>groups := Some g\<rparr>))))
            else Inr None) (\<lambda>tmpl.
     Inr (\<lparr>s5_length = len, s5_numberOfDataPoints = points,
            dataRepresentationTemplateNumber = templateNumber, template = tmpl\<rparr>,
          offset + len))))))"

definition parseSection6 :: "buffer \<Rightarrow> nat \<Rightarrow> error + section6 \<times> nat" where
  "parseSection6 view offset =
     ebind (getUint32 view offset) (\<lambda>len.
     ebind (getUint8 view (offset + 4)) (\<lambda>sectionNumber.
     ebind (getUint8 view (offset + 5)) (\<lambda>indicator.
     ebind (if indicator = 0
            then ebind (uint8_view view (offset + 6) (int len - 6)) (\<lambda>bytes. Inr (Some bytes))
            else Inr None) (\<lambda>bm.
     Inr (\<lparr>s6_length = len, bitMapIndicator = indicator, bitmap = bm\<rparr>,
          offset + len)))))"

definition parseSection8 :: "buffer \<Rightarrow> nat \<Rightarrow> error + nat" where
  "parseSection8 view offset =
     ebind (chars4 view offset) (\<lambda>endSignature.
     if endSignature \<noteq> sevens then Inl InvalidEndSection else Inr (offset + 4))"

section \<open>Decoding the data section\<close>

text \<open>
  \<open>Math.pow(10, -D)\<close> and \<open>Math.pow(2, E)\<close>, taken as the correctly rounded power
  (the scale factors are 16-bit integers; a power outside the range of a double is an
  infinity or zero in the source and is not represented here).  The language leaves
  the precision of \<open>Math.pow\<close> to the implementation, and an engine may return a
  neighbouring double for some exponents; fixed by the language is the exponent 0
  only (the result is 1).  The results below evaluate \<open>js_pow\<close> at the exponents 0
  and -1 only.
\<close>

definition js_pow :: "real \<Rightarrow> int \<Rightarrow> real" where
  "js_pow b k = fl64 (b powi k)"

text \<open>The scaling \<open>(R + x * binaryScale) * decimalScale\<close> stored into a Float32Array.\<close>

definition scale_value :: "real \<Rightarrow> real \<Rightarrow> real \<Rightarrow> int \<Rightarrow> real" where
  "scale_value R binaryScale decimalScale x =
     fl32 (js_mul (js_add R (js_mul (of_int x) binaryScale)) decimalScale)"

subsection \<open>Simple packing\<close>

text \<open>The loop \<open>for (i = 0; i < numberOfPoints; i++)\<close>; \<open>k\<close> counts the points left.\<close>

primrec simple_loop ::
  "buffer \<Rightarrow> nat \<Rightarrow> real \<Rightarrow> real \<Rightarrow> real \<Rightarrow> nat \<Rightarrow> nat \<Rightarrow> error + real list" where
  "simple_loop view bits R binaryScale decimalScale bitOffset 0 = Inr []"
| "simple_loop view bits R binaryScale decimalScale bitOffset (Suc k) =
     ebind (readBits view bitOffset bits) (\<lambda>packedValue.
     ebind (simple_loop view bits R binaryScale decimalScale (bitOffset + bits) k) (\<lambda>rest.
     Inr (scale_value R binaryScale decimalScale packedValue # rest)))"

definition decodeSimplePacking ::
  "buffer \<Rightarrow> nat \<Rightarrow> int \<Rightarrow> drs_template \<Rightarrow> nat \<Rightarrow> error + real list" where
  "decodeSimplePacking view offset dataLength tmpl numberOfPoints =
     (if numberOfBits tmpl = 0 then Inr (replicate numberOfPoints (referenceValue tmpl))
      else
        (let R = referenceValue tmpl;
             E = binaryScaleFactor tmpl;
             D = decimalScaleFactor tmpl;
             decimalScale = js_pow 10 (- D);
             binaryScale = js_pow 2 E
         in simple_loop view (numberOfBits tmpl) R binaryScale decimalScale
              (offset * 8) numberOfPoints))"

subsection \<open>Complex packing and spatial differencing\<close>

text \<open>The value stored by an assignment into an Int32Array, Uint8Array, Uint32Array.\<close>

definition to_int32 :: "int \<Rightarrow> int" where
  "to_int32 x = (x + 2 ^ 31) mod 2 ^ 32 - 2 ^ 31"

definition to_uint8 :: "int \<Rightarrow> nat" where
  "to_uint8 x = nat (x mod 2 ^ 8)"

definition to_uint32 :: "int \<Rightarrow> nat" where
  "to_uint32 x = nat (x mod 2 ^ 32)"

text \<open>
  Step 1, the extra descriptors of template 5.3: \<open>h1\<close>, \<open>h2\<close> when the order is 2,
  a sign bit and a magnitude.  The source has this block twice, for
  \<open>numExtraOctets === 2\<close> and for \<open>numExtraOctets === 1\<close>, and no branch for another
  count.  Result: \<open>h1\<close>, \<open>h2\<close>, \<open>overallMin\<close> and the bit offset after the header.
\<close>

definition read_descriptors ::
  "buffer \<Rightarrow> nat \<Rightarrow> nat \<Rightarrow> nat \<Rightarrow> error + int \<times> int \<times> int \<times> nat" where
  "read_descriptors view bitPos nbitsd orderOfSpatialDiff =
     ebind (readBits view bitPos nbitsd) (\<lambda>h1.
     ebind (if orderOfSpatialDiff = 2
            then ebind (readBits view (bitPos + nbitsd) nbitsd)
                   (\<lambda>h2. Inr (h2, bitPos + nbitsd + nbitsd))
            else Inr (0, bitPos + nbitsd)) (\<lambda>(h2, bitPos2).
     ebind (readBits view bitPos2 1) (\<lambda>isign.
     ebind (readBits view (bitPos2 + 1) (nbitsd - 1)) (\<lambda>minsdMagnitude.
     Inr (h1, h2, (if isign = 1 then - minsdMagnitude else minsdMagnitude),
          bitPos2 + 1 + (nbitsd - 1))))))"

definition spatial_header ::
  "buffer \<Rightarrow> nat \<Rightarrow> nat \<Rightarrow> nat \<Rightarrow> error + int \<times> int \<times> int \<times> nat" where
  "spatial_header view offset orderOfSpatialDiff numExtraOctets =
     (if orderOfSpatialDiff > 0 \<and> numExtraOctets > 0 then
        (let nbitsd = numExtraOctets * 8;
             bitPos = offset * 8
         in if numExtraOctets = 2 then read_descriptors view bitPos nbitsd orderOfSpatialDiff
            else if numExtraOctets = 1 then read_descriptors view bitPos nbitsd orderOfSpatialDiff
            else Inr (0, 0, 0, bitPos))
      else Inr (0, 0, 0, offset * 8))"

text \<open>Steps 2 to 4 read an array of \<open>count\<close> values of \<open>nbits\<close> bits each.\<close>

primrec read_values :: "buffer \<Rightarrow> nat \<Rightarrow> nat \<Rightarrow> nat \<Rightarrow> error + int list" where
  "read_values view nbits bitOffset 0 = Inr []"
| "read_values view nbits bitOffset (Suc k) =
     ebind (readBits view bitOffset nbits) (\<lambda>v.
     ebind (read_values view nbits (bitOffset + nbits) k) (\<lambda>rest. Inr (v # rest)))"

text \<open>
  One metadata array: zeros when its bit count is 0, and otherwise the values read,
  after which the cursor is moved by \<open>8 - bitsUsed % 8\<close> when \<open>bitsUsed\<close> is not a
  multiple of 8.
\<close>

definition read_group_array ::
  "buffer \<Rightarrow> nat \<Rightarrow> nat \<Rightarrow> nat \<Rightarrow> error + int list \<times> nat" where
  "read_group_array view nbits bitOffset numberOfGroups' =
     (if nbits > 0 then
        ebind (read_values view nbits bitOffset numberOfGroups') (\<lambda>vs.
        (let bitOffset' = bitOffset + numberOfGroups' * nbits;
             bitsUsed = numberOfGroups' * nbits
         in Inr (vs, if bitsUsed mod 8 \<noteq> 0 then bitOffset' + (8 - bitsUsed mod 8)
                     else bitOffset')))
      else Inr (replicate numberOfGroups' 0, bitOffset))"

text \<open>
  Step 5.  The state of the unpacking loops is the integer field \<open>ifld\<close> (an
  Int32Array, here the list of its values), the index \<open>n\<close> and the bit offset.  A
  group of non-zero width reads \<open>glen[j]\<close> values; when the next value would pass
  \<open>maxBitOffset\<close> the rest of the field is zeroed and the loop left.
\<close>

primrec unpack_group ::
  "buffer \<Rightarrow> int \<Rightarrow> nat \<Rightarrow> int \<Rightarrow> nat \<Rightarrow> nat \<Rightarrow> int list \<times> nat \<times> nat
     \<Rightarrow> error + int list \<times> nat \<times> nat" where
  "unpack_group view maxBitOffset numberOfPoints gref_j gwidth_j 0 st = Inr st"
| "unpack_group view maxBitOffset numberOfPoints gref_j gwidth_j (Suc k) st =
     (case st of (ifld, n, bitOffset) \<Rightarrow>
        if n < numberOfPoints then
          (if int bitOffset + int gwidth_j > maxBitOffset
           then Inr (take n ifld @ replicate (numberOfPoints - n) 0, numberOfPoints, bitOffset)
           else ebind (readBits view bitOffset gwidth_j) (\<lambda>packedValue.
                  unpack_group view maxBitOffset numberOfPoints gref_j gwidth_j k
                    (ifld[n := to_int32 (gref_j + packedValue)], n + 1,
                     bitOffset + gwidth_j)))
        else Inr st)"

primrec constant_group ::
  "nat \<Rightarrow> int \<Rightarrow> nat \<Rightarrow> int list \<times> nat \<times> nat \<Rightarrow> int list \<times> nat \<times> nat" where
  "constant_group numberOfPoints gref_j 0 st = st"
| "constant_group numberOfPoints gref_j (Suc k) st =
     (case st of (ifld, n, bitOffset) \<Rightarrow>
        if n < numberOfPoints
        then constant_group numberOfPoints gref_j k (ifld[n := gref_j], n + 1, bitOffset)
        else st)"

text \<open>The loop over the groups, each a triple of reference, width and length.\<close>

fun unpack_groups ::
  "buffer \<Rightarrow> int \<Rightarrow> nat \<Rightarrow> (int \<times> nat \<times> nat) list \<Rightarrow> int list \<times> nat \<times> nat
     \<Rightarrow> error + int list \<times> nat \<times> nat" where
  "unpack_groups view maxBitOffset numberOfPoints [] st = Inr st"
| "unpack_groups view maxBitOffset numberOfPoints ((gref_j, gwidth_j, glen_j) # rest) st =
     (if gwidth_j \<noteq> 0 then
        ebind (unpack_group view maxBitOffset numberOfPoints gref_j gwidth_j glen_j st)
          (\<lambda>st'. case st' of (ifld, n, bitOffset) \<Rightarrow>
                    if n \<ge> numberOfPoints then Inr st'
                    else unpack_groups view maxBitOffset numberOfPoints rest st')
      else unpack_groups view maxBitOffset numberOfPoints rest
             (constant_group numberOfPoints gref_j glen_j st))"

text \<open>
  Step 6, the reversal of the spatial differencing, on the Int32Array: every
  assignment stores the 32-bit value of its right-hand side.  \<open>order1_step\<close> and
  \<open>order2_step\<close> are the bodies of the two \<open>for\<close> loops, with their two assignments
  to \<open>ifld[n]\<close>.
\<close>

definition order1_step :: "int \<Rightarrow> nat \<Rightarrow> int list \<Rightarrow> int list" where
  "order1_step overallMin n I =
     (let I1 = I[n := to_int32 (I ! n + overallMin)]
      in I1[n := to_int32 (I1 ! n + I1 ! (n - 1))])"

definition reverse_order1 :: "int \<Rightarrow> int \<Rightarrow> int list \<Rightarrow> int list" where
  "reverse_order1 h1 overallMin ifld =
     fold (order1_step overallMin) [1 ..< length ifld] (ifld[0 := to_int32 h1])"

definition order2_step :: "int \<Rightarrow> nat \<Rightarrow> int list \<Rightarrow> int list" where
  "order2_step overallMin n I =
     (let I1 = I[n := to_int32 (I ! n + overallMin)]
      in I1[n := to_int32 (I1 ! n + 2 * I1 ! (n - 1) - I1 ! (n - 2))])"

definition reverse_order2 :: "int \<Rightarrow> int \<Rightarrow> int \<Rightarrow> int list \<Rightarrow> int list" where
  "reverse_order2 h1 h2 overallMin ifld =
     fold (order2_step overallMin) [2 ..< length ifld]
       (ifld[0 := to_int32 h1, 1 := to_int32 h2])"

definition reverse_spatial_differencing ::
  "nat \<Rightarrow> int \<Rightarrow> int \<Rightarrow> int \<Rightarrow> int list \<Rightarrow> int list" where
  "reverse_spatial_differencing orderOfSpatialDiff h1 h2 overallMin ifld =
     (if orderOfSpatialDiff > 0 then
        (if orderOfSpatialDiff = 1 then reverse_order1 h1 overallMin ifld
         else if orderOfSpatialDiff = 2 then reverse_order2 h1 h2 overallMin ifld
         else ifld)
      else ifld)"

text \<open>
  Steps 2 to 5 of \<open>decodeComplexPacking\<close>, from the bit offset left by the header:
  the three metadata arrays (the widths stored into a Uint8Array, the lengths into a
  Uint32Array, the last length overridden) and the unpacking of the groups into the
  integer field, which starts as \<open>numberOfPoints\<close> zeros.
\<close>

definition unpack_field ::
  "buffer \<Rightarrow> nat \<Rightarrow> int \<Rightarrow> drs_template \<Rightarrow> group_fields \<Rightarrow> nat \<Rightarrow> nat \<Rightarrow> error + int list" where
  "unpack_field view offset dataLength tmpl g numberOfPoints bitOffset1 =
     (let ifld0 = replicate numberOfPoints (0 :: int);
          nbitsgref = numberOfBits tmpl;
          nbitsgwidth = numberOfBitsForGroupWidths g;
          nbitsglen = numberOfBitsForScaledGroupLengths g;
          maxBitOffset = (int offset + dataLength) * 8
      in
        ebind (read_group_array view nbitsgref bitOffset1 (numberOfGroups g))
          (\<lambda>(gref, bitOffset2).
        ebind (read_group_array view nbitsgwidth bitOffset2 (numberOfGroups g))
          (\<lambda>(gwidthRaw, bitOffset3).
        ebind (read_group_array view nbitsglen bitOffset3 (numberOfGroups g))
          (\<lambda>(glenRaw, bitOffset4).
        (let gwidth = map (\<lambda>w. to_uint8 (int (to_uint8 w) + int (referenceForGroupWidths g)))
                        gwidthRaw;
             glen = (map (\<lambda>l. to_uint32 (int (to_uint32 l)
                                   * int (lengthIncrementForGroupLengths g)
                                   + int (referenceForGroupLengths g))) glenRaw)
                      [numberOfGroups g - 1 := trueLengthOfLastGroup g]
         in ebind (unpack_groups view maxBitOffset numberOfPoints
                     (zip gref (zip gwidth glen)) (ifld0, 0, bitOffset4))
              (\<lambda>(ifld, n, bitOffset5). Inr ifld))))))"

text \<open>
  The body of the \<open>try\<close> block of \<open>decodeComplexPacking\<close>: the header (step 1), the
  early return for a message without groups, steps 2 to 5, the reversal of the spatial
  differencing (step 6) and the scaling (step 7).  The function itself follows, whose
  \<open>catch\<close> turns every exception into a field of zeros.
\<close>

definition complex_body ::
  "buffer \<Rightarrow> nat \<Rightarrow> int \<Rightarrow> drs_template \<Rightarrow> group_fields \<Rightarrow> nat \<Rightarrow> error + real list" where
  "complex_body view offset dataLength tmpl g numberOfPoints =
     (let R = referenceValue tmpl;
          E = binaryScaleFactor tmpl;
          D = decimalScaleFactor tmpl;
          decimalScale = js_pow 10 (- D);
          binaryScale = js_pow 2 E;
          orderOfSpatialDiff = orderOfSpatialDifferencing g;
          numExtraOctets = (case numberOfOctetsExtraDescriptors g of None \<Rightarrow> 0 | Some k \<Rightarrow> k)
      in
        ebind (spatial_header view offset orderOfSpatialDiff numExtraOctets)
          (\<lambda>(h1, h2, overallMin, bitOffset1).
        if numberOfGroups g = 0
        then Inr (replicate numberOfPoints (fl32 (js_mul R decimalScale)))
        else
          ebind (unpack_field view offset dataLength tmpl g numberOfPoints bitOffset1)
            (\<lambda>ifld.
          Inr (map (scale_value R binaryScale decimalScale)
                 (reverse_spatial_differencing orderOfSpatialDiff h1 h2 overallMin ifld)))))"

definition decodeComplexPacking ::
  "buffer \<Rightarrow> nat \<Rightarrow> int \<Rightarrow> drs_template \<Rightarrow> group_fields \<Rightarrow> nat \<Rightarrow> real list" where
  "decodeComplexPacking view offset dataLength tmpl g numberOfPoints =
     (case complex_body view offset dataLength tmpl g numberOfPoints of
        Inl e \<Rightarrow> replicate numberOfPoints 0
      | Inr field \<Rightarrow> field)"

section \<open>Section 7 and the message walker\<close>

text \<open>
  \<open>parseSection7(section5)\<close>.  A template object exists exactly for the template
  numbers 0, 2 and 3, and has its group fields exactly for 2 and 3 (see
  \<open>parseSection5\<close>); the branch for a template 2 or 3 without group fields cannot be
  reached and keeps the raw bytes.
\<close>

definition parseSection7 :: "buffer \<Rightarrow> nat \<Rightarrow> section5 option \<Rightarrow> error + section7 \<times> nat" where
  "parseSection7 view offset s5 =
     ebind (getUint32 view offset) (\<lambda>len.
     ebind (getUint8 view (offset + 4)) (\<lambda>sectionNumber.
     ebind
       (case s5 of
          None \<Rightarrow>
            ebind (uint8_view view (offset + 5) (int len - 5)) (\<lambda>raw.
            Inr \<lparr>s7_length = len, data = None, rawData = Some raw\<rparr>)
        | Some sec5 \<Rightarrow>
            (case template sec5 of
               None \<Rightarrow>
                 ebind (uint8_view view (offset + 5) (int len - 5)) (\<lambda>raw.
                 Inr \<lparr>s7_length = len, data = None, rawData = Some raw\<rparr>)
             | Some tmpl \<Rightarrow>
                 if dataRepresentationTemplateNumber sec5 = 0 then
                   ebind (decodeSimplePacking view (offset + 5) (int len - 5) tmpl
                            (s5_numberOfDataPoints sec5)) (\<lambda>field.
                   Inr \<lparr>s7_length = len, data = Some field, rawData = None\<rparr>)
                 else if dataRepresentationTemplateNumber sec5 = 2
                       \<or> dataRepresentationTemplateNumber sec5 = 3 then
                   (case groups tmpl of
                      Some g \<Rightarrow>
                        Inr \<lparr>s7_length = len,
                             data = Some (decodeComplexPacking view (offset + 5) (int len - 5)
                                            tmpl g (s5_numberOfDataPoints sec5)),
                             rawData = None\<rparr>
                    | None \<Rightarrow>
                        ebind (uint8_view view (offset + 5) (int len - 5)) (\<lambda>raw.
                        Inr \<lparr>s7_length = len, data = None, rawData = Some raw\<rparr>))
                 else
                   ebind (uint8_view view (offset + 5) (int len - 5)) (\<lambda>raw.
                   Inr \<lparr>s7_length = len, data = None, rawData = Some raw\<rparr>)))
       (\<lambda>s7. Inr (s7, offset + len))))"

text \<open>
  The loop of \<open>parseMessage\<close> over the sections after section 1.  A section whose
  length field is 0 leaves the cursor where it is, so the loop need not end: it is a
  partial function, and \<open>None\<close> is the run that never returns.  \<open>limit\<close> is
  \<open>messageStart + section0.totalLength\<close>.
\<close>

partial_function (option) parseSections ::
  "buffer \<Rightarrow> real \<Rightarrow> nat \<Rightarrow> sections \<Rightarrow> (error + sections \<times> nat) option" where
  "parseSections view limit offset secs =
     (if real offset < limit then
        (case chars4 view offset of
           Inl e \<Rightarrow> Some (Inl e)
         | Inr next4Bytes \<Rightarrow>
             if next4Bytes = sevens then
               (case parseSection8 view offset of
                  Inl e \<Rightarrow> Some (Inl e)
                | Inr offset' \<Rightarrow> Some (Inr (secs, offset')))
             else
               (case getUint8 view (offset + 4) of
                  Inl e \<Rightarrow> Some (Inl e)
                | Inr sectionNumber \<Rightarrow>
                    if sectionNumber = 2 then
                      (case parseSection2 view offset of
                         Inl e \<Rightarrow> Some (Inl e)
                       | Inr (s, offset') \<Rightarrow>
                           parseSections view limit offset' (secs\<lparr>section2 := Some s\<rparr>))
                    else if sectionNumber = 3 then
                      (case parseSection3 view offset of
                         Inl e \<Rightarrow> Some (Inl e)
                       | Inr (s, offset') \<Rightarrow>
                           parseSections view limit offset' (secs\<lparr>section3 := Some s\<rparr>))
                    else if sectionNumber = 4 then
                      (case parseSection4 view offset of
                         Inl e \<Rightarrow> Some (Inl e)
                       | Inr (s, offset') \<Rightarrow>
                           parseSections view limit offset' (secs\<lparr>section4 := Some s\<rparr>))
                    else if sectionNumber = 5 then
                      (case parseSection5 view offset of
                         Inl e \<Rightarrow> Some (Inl e)
                       | Inr (s, offset') \<Rightarrow>
                           parseSections view limit offset' (secs\<lparr>section5 := Some s\<rparr>))
                    else if sectionNumber = 6 then
                      (case parseSection6 view offset of
                         Inl e \<Rightarrow> Some (Inl e)
                       | Inr (s, offset') \<Rightarrow>
                           parseSections view limit offset' (secs\<lparr>section6 := Some s\<rparr>))
                    else if sectionNumber = 7 then
                      (case parseSection7 view offset (section5 secs) of
                         Inl e \<Rightarrow> Some (Inl e)
                       | Inr (s, offset') \<Rightarrow>
                           parseSections view limit offset' (secs\<lparr>section7 := Some s\<rparr>))
                    else Some (Inl (UnknownSection sectionNumber offset))))
      else Some (Inr (secs, offset)))"

text \<open>
  \<open>parseMessage\<close> returns the message, or \<open>null\<close> when \<open>parseSection0\<close> did, together
  with the cursor.
\<close>

definition parseMessage :: "buffer \<Rightarrow> nat \<Rightarrow> (error + message option \<times> nat) option" where
  "parseMessage view offset =
     (let messageStart = offset
      in case parseSection0 view offset of
           Inl e \<Rightarrow> Some (Inl e)
         | Inr None \<Rightarrow> Some (Inr (None, offset))
         | Inr (Some (s0, offset0)) \<Rightarrow>
             (case parseSection1 view offset0 of
                Inl e \<Rightarrow> Some (Inl e)
              | Inr (s1, offset1) \<Rightarrow>
                  (case parseSections view (js_add (real messageStart) (s0_totalLength s0)) offset1
                          \<lparr>section1 = s1, section2 = None, section3 = None, section4 = None,
                           section5 = None, section6 = None, section7 = None\<rparr> of
                     None \<Rightarrow> None
                   | Some (Inl e) \<Rightarrow> Some (Inl e)
                   | Some (Inr (secs, offset')) \<Rightarrow>
                       Some (Inr (Some \<lparr>discipline = s0_discipline s0,
                                        edition = s0_edition s0,
                                        totalLength = s0_totalLength s0,
                                        sections = secs\<rparr>, offset')))))"

text \<open>
  The loop of \<open>parse\<close>: an exception ends it (\<open>catch \<dots> break\<close>), a \<open>null\<close> message is
  skipped, a message is appended.  The result is the list of messages, or \<open>None\<close>
  when the loop runs forever.
\<close>

partial_function (option) parse_loop :: "buffer \<Rightarrow> nat \<Rightarrow> message list \<Rightarrow> message list option" where
  "parse_loop view offset messages =
     (if offset < length view then
        (case parseMessage view offset of
           None \<Rightarrow> None
         | Some (Inl e) \<Rightarrow> Some messages
         | Some (Inr (None, offset')) \<Rightarrow> parse_loop view offset' messages
         | Some (Inr (Some m, offset')) \<Rightarrow> parse_loop view offset' (messages @ [m]))
      else Some messages)"

definition parse :: "buffer \<Rightarrow> message list option" where
  "parse view = parse_loop view 0 []"

section \<open>Parameter names and levels\<close>

text \<open>
  An element of a Uint8Array read beyond its length is \<open>undefined\<close>: \<open>byte_at\<close> gives
  \<open>None\<close> there.  In a template literal \<open>undefined\<close> prints as that word, and under
  \<open>|\<close> and \<open><<\<close> it counts as 0.
\<close>

definition byte_at :: "byte list \<Rightarrow> nat \<Rightarrow> nat option" where
  "byte_at bs i = (if i < length bs then Some (unat (bs ! i)) else None)"

definition byte_or_zero :: "byte list \<Rightarrow> nat \<Rightarrow> 32 word" where
  "byte_or_zero bs i = (case byte_at bs i of None \<Rightarrow> 0 | Some b \<Rightarrow> word_of_nat b)"

fun digits :: "nat \<Rightarrow> string" where
  "digits n = (if n < 10 then [char_of (48 + n)]
               else digits (n div 10) @ [char_of (48 + n mod 10)])"

declare digits.simps [simp del]

definition show_byte :: "nat option \<Rightarrow> string" where
  "show_byte b = (case b of None \<Rightarrow> ''undefined'' | Some n \<Rightarrow> digits n)"

definition getParameterName :: "nat option \<Rightarrow> nat option \<Rightarrow> string" where
  "getParameterName category number =
     (if category = Some 2 \<and> number = Some 2 then ''ugrd''
      else if category = Some 2 \<and> number = Some 3 then ''vgrd''
      else if category = Some 2 \<and> number = Some 1 then ''vwnd''
      else if category = Some 2 \<and> number = Some 0 then ''uwnd''
      else if category = Some 0 \<and> number = Some 0 then ''temp''
      else if category = Some 1 \<and> number = Some 0 then ''spfh''
      else if category = Some 1 \<and> number = Some 1 then ''rh''
      else if category = Some 3 \<and> number = Some 0 then ''pres''
      else if category = Some 3 \<and> number = Some 1 then ''pmsl''
      else ''param_'' @ show_byte category @ ''_'' @ show_byte number)"

text \<open>
  The big-endian combination \<open>(b0 << 24) | (b1 << 16) | (b2 << 8) | b3\<close> of four
  template bytes, a signed 32-bit integer.
\<close>

definition combine4 :: "byte list \<Rightarrow> nat \<Rightarrow> nat \<Rightarrow> nat \<Rightarrow> nat \<Rightarrow> int" where
  "combine4 bs i0 i1 i2 i3 =
     sint (push_bit 24 (byte_or_zero bs i0) OR push_bit 16 (byte_or_zero bs i1)
           OR push_bit 8 (byte_or_zero bs i2) OR byte_or_zero bs i3)"

text \<open>
  The level of a message as \<open>getInventory\<close> derives it from the template bytes of
  section 4, when there are at least 19 of them: the type of the first fixed surface
  at byte 13, and the scaled value at bytes 15 to 18 divided by
  \<open>Math.pow(10, scaleFactor)\<close>, the scale factor being byte 14.  The inventory line
  shows \<open>getLevelDescription(levelType, levelValue)\<close>, a text made of these two (the
  printing of numbers is not modelled).
\<close>

definition inventory_level :: "byte list \<Rightarrow> (nat \<times> real) option" where
  "inventory_level td =
     (if length td \<ge> 19 then
        (let levelType = unat (td ! 13);
             scaleFactor = unat (td ! 14);
             scaledValue = combine4 td 15 16 17 18;
             levelValue = js_div (of_int scaledValue) (js_pow 10 (int scaleFactor))
         in Some (levelType, levelValue))
      else None)"

text \<open>
  The level of a message as \<open>getData\<close> derives it for its filters, when there are at
  least 14 template bytes: \<open>levelType\<close> is byte 9 and \<open>levelValue\<close> the combination of
  bytes 11 to 14.  Otherwise \<open>levelType\<close> is the text \<open>'unknown'\<close> and \<open>levelValue\<close> is
  \<open>null\<close> (both \<open>None\<close> here).
\<close>

definition data_level :: "byte list \<Rightarrow> nat option \<times> int option" where
  "data_level td =
     (if length td \<ge> 14
      then (Some (unat (td ! 9)), Some (combine4 td 11 12 13 14))
      else (None, None))"

section \<open>getData\<close>

text \<open>
  The options of \<open>getData\<close> that the model covers, with the defaults of the source
  (\<open>messageIndex\<close> 0, \<open>multiLevel\<close> false, \<open>firstParameterOnly\<close> true, no filter,
  \<open>longitudeFormat\<close> \<open>'preserve'\<close>).  The options \<open>match\<close>, \<open>calculateWindSpeed\<close>
  and \<open>asObjects\<close> are taken as not given, \<open>calculateWindDirection\<close> has a section of
  its own below;
  \<open>earthRelativeWinds\<close> has no effect in the source
  (\<open>convertWindsToEarthRelative\<close> returns at once).
\<close>

record options =
  messageIndex :: nat
  multiLevel :: bool
  firstParameterOnly :: bool
  parameters :: "string list option"
  levelType :: "nat option"
  levelValue :: "int option"
  longitudeFormat :: string

definition default_options :: options where
  "default_options =
     \<lparr>messageIndex = 0, multiLevel = False, firstParameterOnly = True, parameters = None,
      levelType = None, levelValue = None, longitudeFormat = ''preserve''\<rparr>"

text \<open>
  The running minimum and maximum start at \<open>Infinity\<close> and \<open>-Infinity\<close> and keep
  these values on a grid without points.
\<close>

datatype bound = MinusInfinity | Finite real | PlusInfinity

fun bound_less :: "bound \<Rightarrow> bound \<Rightarrow> bool" where
  "bound_less MinusInfinity MinusInfinity = False"
| "bound_less MinusInfinity b = True"
| "bound_less (Finite x) (Finite y) = (x < y)"
| "bound_less (Finite x) PlusInfinity = True"
| "bound_less (Finite x) MinusInfinity = False"
| "bound_less PlusInfinity b = False"

record grid_metadata =
  m_ni :: nat
  m_nj :: nat
  latMin :: bound
  latMax :: bound
  lngMin :: bound
  lngMax :: bound
  latIncrement :: real
  lngIncrement :: real
  m_scanningMode :: nat

record level_entry =
  l_messageIndex :: nat
  l_parameter :: string
  l_category :: "nat option"
  l_number :: "nat option"
  l_levelType :: "nat option"
  l_levelValue :: "int option"
  l_data :: "real list"

text \<open>
  The object returned by \<open>getData\<close>: the coordinate arrays, \<open>metadata.grid\<close> (the
  date fields of \<open>metadata\<close>, copies of section 1, are left out), \<open>numPoints\<close>, the
  parameter arrays as the list of the properties \<open>result[paramName]\<close> in the order of
  their creation, and \<open>levels\<close> when \<open>multiLevel\<close> is set.
\<close>

record data_result =
  lat :: "real list"
  lng :: "real list"
  grid :: grid_metadata
  numPoints :: nat
  params :: "(string \<times> real list) list"
  levels :: "level_entry list option"

text \<open>
  The coordinate arrays, in the order \<open>idx = j * ni + i\<close>; each element is stored into
  a Float32Array.
\<close>

definition coordinates :: "gridTemplate0 \<Rightarrow> real list \<times> real list" where
  "coordinates g =
     (let scanningMode' = scanningMode g;
          iScansPositively = (word_of_nat scanningMode' AND (0x80 :: 32 word)) = 0;
          jScansPositively = (word_of_nat scanningMode' AND (0x40 :: 32 word)) \<noteq> 0;
          iMultiplier = (if iScansPositively then 1 else - 1);
          jMultiplier = (if jScansPositively then 1 else - 1)
      in (concat (map (\<lambda>j. map (\<lambda>i.
                    fl32 (js_add (latitudeOfFirstGridPoint g)
                            (js_mul (js_mul (real j) (jDirectionIncrement g)) jMultiplier)))
                  [0 ..< ni g]) [0 ..< nj g]),
          concat (map (\<lambda>j. map (\<lambda>i.
                    fl32 (js_add (longitudeOfFirstGridPoint g)
                            (js_mul (js_mul (real i) (iDirectionIncrement g)) iMultiplier)))
                  [0 ..< ni g]) [0 ..< nj g])))"

text \<open>
  The four \<open>while\<close> loops of the longitude normalisation, on one element of the
  Float32Array.  The subtraction or addition is done in double arithmetic and its
  result stored as a float, which for a large value is the value itself: the loops are
  partial functions.
\<close>

partial_function (option) sub_while_ge360 :: "real \<Rightarrow> real option" where
  "sub_while_ge360 x = (if x \<ge> 360 then sub_while_ge360 (fl32 (js_sub x 360)) else Some x)"

partial_function (option) add_while_lt0 :: "real \<Rightarrow> real option" where
  "add_while_lt0 x = (if x < 0 then add_while_lt0 (fl32 (js_add x 360)) else Some x)"

partial_function (option) sub_while_gt180 :: "real \<Rightarrow> real option" where
  "sub_while_gt180 x = (if x > 180 then sub_while_gt180 (fl32 (js_sub x 360)) else Some x)"

partial_function (option) add_while_le_minus180 :: "real \<Rightarrow> real option" where
  "add_while_le_minus180 x =
     (if x \<le> - 180 then add_while_le_minus180 (fl32 (js_add x 360)) else Some x)"

definition normalize_0_360 :: "real \<Rightarrow> real option" where
  "normalize_0_360 x = Option.bind (sub_while_ge360 x) add_while_lt0"

definition normalize_180 :: "real \<Rightarrow> real option" where
  "normalize_180 x = Option.bind (sub_while_gt180 x) add_while_le_minus180"

text \<open>The \<open>for\<close> loop over the array: element after element, each to its end.\<close>

primrec for_each :: "(real \<Rightarrow> real option) \<Rightarrow> real list \<Rightarrow> real list option" where
  "for_each f [] = Some []"
| "for_each f (x # xs) =
     Option.bind (f x) (\<lambda>y. Option.bind (for_each f xs) (\<lambda>ys. Some (y # ys)))"

definition normalize_longitudes :: "string \<Rightarrow> real list \<Rightarrow> real list option" where
  "normalize_longitudes format lng' =
     (if format = ''0-360'' then for_each normalize_0_360 lng'
      else if format = ''-180-180'' then for_each normalize_180 lng'
      else Some lng')"

definition array_min :: "real list \<Rightarrow> bound" where
  "array_min xs = fold (\<lambda>x m. if bound_less (Finite x) m then Finite x else m) xs PlusInfinity"

definition array_max :: "real list \<Rightarrow> bound" where
  "array_max xs = fold (\<lambda>x m. if bound_less m (Finite x) then Finite x else m) xs MinusInfinity"

text \<open>
  The body of \<open>this.messages.forEach((msg, idx) => \<dots>)\<close>.  Its state is the list of
  parameter arrays of the result, the object \<open>paramCounts\<close> and the array \<open>levels\<close>.
  A message without section 4 or without decoded data is passed over, then the three
  filters apply, then the array is collected.
\<close>

type_synonym collect_state = "(string \<times> real list) list \<times> (string \<times> nat) list \<times> level_entry list"

definition counted :: "(string \<times> nat) list \<Rightarrow> string \<Rightarrow> bool" where
  "counted paramCounts name = (case map_of paramCounts name of None \<Rightarrow> False | Some c \<Rightarrow> c \<noteq> 0)"

definition count_of :: "(string \<times> nat) list \<Rightarrow> string \<Rightarrow> nat" where
  "count_of paramCounts name = (case map_of paramCounts name of None \<Rightarrow> 0 | Some c \<Rightarrow> c)"

definition collect_message :: "options \<Rightarrow> nat \<Rightarrow> message \<Rightarrow> collect_state \<Rightarrow> collect_state" where
  "collect_message opts idx msg st =
     (case st of (result, paramCounts, levels') \<Rightarrow>
        (case section4 (sections msg) of
           None \<Rightarrow> st
         | Some s4 \<Rightarrow>
             (case section7 (sections msg) of
                None \<Rightarrow> st
              | Some s7 \<Rightarrow>
                  (case data s7 of
                     None \<Rightarrow> st
                   | Some field \<Rightarrow>
                       (let category = byte_at (templateData s4) 0;
                            number = byte_at (templateData s4) 1;
                            paramName = getParameterName category number;
                            level = data_level (templateData s4)
                        in if (case parameters opts of
                                 None \<Rightarrow> False | Some names \<Rightarrow> paramName \<notin> set names)
                           then st
                           else if (case levelType opts of
                                      None \<Rightarrow> False | Some t \<Rightarrow> fst level \<noteq> Some t)
                           then st
                           else if (case levelValue opts of
                                      None \<Rightarrow> False | Some v \<Rightarrow> snd level \<noteq> Some v)
                           then st
                           else if multiLevel opts then
                             (result, paramCounts,
                              levels' @ [\<lparr>l_messageIndex = idx, l_parameter = paramName,
                                          l_category = category, l_number = number,
                                          l_levelType = fst level, l_levelValue = snd level,
                                          l_data = field\<rparr>])
                           else if firstParameterOnly opts then
                             (if \<not> counted paramCounts paramName
                              then (AList.update paramName field result,
                                    AList.update paramName 1 paramCounts, levels')
                              else (result,
                                    AList.update paramName (count_of paramCounts paramName + 1)
                                      paramCounts, levels'))
                           else
                             (AList.update paramName field result,
                              AList.update paramName (count_of paramCounts paramName + 1)
                                paramCounts, levels'))))))"

primrec collect_messages ::
  "options \<Rightarrow> nat \<Rightarrow> message list \<Rightarrow> collect_state \<Rightarrow> collect_state" where
  "collect_messages opts idx [] st = st"
| "collect_messages opts idx (msg # rest) st =
     collect_messages opts (idx + 1) rest (collect_message opts idx msg st)"

text \<open>
  \<open>getData(options)\<close> on the parsed messages.  \<open>None\<close> is a normalisation loop that
  does not end.  An index beyond the messages makes \<open>firstMessage\<close> undefined and the
  access to its sections a TypeError.  (\<open>numPoints\<close> is \<open>ni * nj\<close>, two unsigned 32-bit
  integers; the allocation of the arrays fails long before the product would be
  rounded.)
\<close>

definition getData :: "message list \<Rightarrow> options \<Rightarrow> (error + data_result) option" where
  "getData messages opts =
     (if messages = [] then Some (Inl NoMessagesParsed)
      else if messageIndex opts \<ge> length messages then Some (Inl TypeError)
      else
        (let firstMessage = messages ! messageIndex opts
         in case (case section3 (sections firstMessage) of
                    None \<Rightarrow> None | Some s3 \<Rightarrow> gridTemplate s3) of
              None \<Rightarrow> Some (Inl NoGridTemplate)
            | Some g \<Rightarrow>
                (case coordinates g of (lat', lng0) \<Rightarrow>
                   (case normalize_longitudes (longitudeFormat opts) lng0 of
                      None \<Rightarrow> None
                    | Some lng' \<Rightarrow>
                        (case collect_messages opts 0 messages ([], [], []) of
                           (result, paramCounts, levels') \<Rightarrow>
                             Some (Inr \<lparr>lat = lat', lng = lng',
                                        grid = \<lparr>m_ni = ni g, m_nj = nj g,
                                                 latMin = array_min lat', latMax = array_max lat',
                                                 lngMin = array_min lng', lngMax = array_max lng',
                                                 latIncrement = jDirectionIncrement g,
                                                 lngIncrement = iDirectionIncrement g,
                                                 m_scanningMode = scanningMode g\<rparr>,
                                        numPoints = ni g * nj g,
                                        params = result,
                                        levels = (if multiLevel opts then Some levels'
                                                  else None)\<rparr>))))))"

section \<open>The wind direction of getData\<close>
















section \<open>bilinearInterpolate\<close>

text \<open>
  \<open>data[param]\<close> for a parameter name: the coordinate arrays are properties of the
  data object like the parameter arrays.
\<close>

definition data_property :: "data_result \<Rightarrow> string \<Rightarrow> real list option" where
  "data_property d p =
     (if p = ''lat'' then Some (lat d)
      else if p = ''lng'' then Some (lng d)
      else map_of (params d) p)"

text \<open>
  \<open>arr[idx]\<close> for a number \<open>idx\<close>: an element when \<open>idx\<close> is an integer within the
  array and \<open>undefined\<close> otherwise.  Arithmetic on \<open>undefined\<close> gives NaN; an
  interpolated value is a \<open>real option\<close> with \<open>None\<close> for NaN.
\<close>

definition element_at :: "real list \<Rightarrow> real \<Rightarrow> real option" where
  "element_at arr idx =
     (if idx = of_int \<lfloor>idx\<rfloor> \<and> 0 \<le> idx \<and> idx < real (length arr)
      then Some (arr ! nat \<lfloor>idx\<rfloor>) else None)"

definition bound_min :: "bound \<Rightarrow> bound \<Rightarrow> bound" where
  "bound_min a b = (if bound_less b a then b else a)"

definition bound_max :: "bound \<Rightarrow> bound \<Rightarrow> bound" where
  "bound_max a b = (if bound_less a b then b else a)"

text \<open>
  The formula
  \<open>v00 * (1 - wx) * (1 - wy) + v10 * wx * (1 - wy) + v01 * (1 - wx) * wy + v11 * wx * wy\<close>,
  each operation in double arithmetic, from the left.
\<close>

definition bilinear_formula :: "real \<Rightarrow> real \<Rightarrow> real \<Rightarrow> real \<Rightarrow> real \<Rightarrow> real \<Rightarrow> real" where
  "bilinear_formula v00 v10 v01 v11 wx wy =
     js_add
       (js_add
          (js_add (js_mul (js_mul v00 (js_sub 1 wx)) (js_sub 1 wy))
                  (js_mul (js_mul v10 wx) (js_sub 1 wy)))
          (js_mul (js_mul v01 (js_sub 1 wx)) wy))
       (js_mul (js_mul v11 wx) wy)"

definition interpolate_array ::
  "real list \<Rightarrow> real \<Rightarrow> real \<Rightarrow> real \<Rightarrow> real \<Rightarrow> real \<Rightarrow> real \<Rightarrow> real option" where
  "interpolate_array arr idx00 idx10 idx01 idx11 wx wy =
     (case (element_at arr idx00, element_at arr idx10, element_at arr idx01,
            element_at arr idx11) of
        (Some v00, Some v10, Some v01, Some v11) \<Rightarrow>
          Some (bilinear_formula v00 v10 v01 v11 wx wy)
      | _ \<Rightarrow> None)"

record interpolation =
  i_lat :: real
  i_lng :: real
  indices :: "(real \<times> real \<times> real \<times> real \<times> real \<times> real) option"
  i_values :: "(string \<times> real option) list"

text \<open>
  \<open>bilinearInterpolate(data, targetLat, targetLng, parameters)\<close>; \<open>None\<close> is the
  result \<open>null\<close> for a point outside the grid.  When a bound used in the arithmetic is
  infinite or an increment is zero the fractional indices are infinite or NaN in the
  source, no array element is found and every value is NaN; \<open>indices\<close> is then left
  out of the result.
\<close>

definition bilinearInterpolate ::
  "data_result \<Rightarrow> real \<Rightarrow> real \<Rightarrow> string list \<Rightarrow> interpolation option" where
  "bilinearInterpolate d targetLat targetLng parameters' =
     (let g = grid d;
          ni' = m_ni g;
          nj' = m_nj g;
          latInc = latIncrement g;
          lngInc = lngIncrement g
      in if bound_less (Finite targetLat) (bound_min (latMin g) (latMax g))
            \<or> bound_less (bound_max (latMin g) (latMax g)) (Finite targetLat)
            \<or> bound_less (Finite targetLng) (lngMin g)
            \<or> bound_less (lngMax g) (Finite targetLng)
         then None
         else
           (case (lngMin g, latMin g) of
              (Finite lngMin', Finite latMin') \<Rightarrow>
                if lngInc = 0 \<or> latInc = 0 then
                  Some \<lparr>i_lat = targetLat, i_lng = targetLng, indices = None,
                        i_values = fold (\<lambda>p r. case data_property d p of
                                                  None \<Rightarrow> r
                                                | Some arr \<Rightarrow> AList.update p None r)
                                     parameters' []\<rparr>
                else
                  (let iFloat = js_div (js_sub targetLng lngMin') lngInc;
                       jFloat = js_div (js_sub targetLat latMin') latInc;
                       i0 = of_int \<lfloor>iFloat\<rfloor>;
                       i1 = min (js_add i0 1) (js_sub (real ni') 1);
                       j0 = of_int \<lfloor>jFloat\<rfloor>;
                       j1 = min (js_add j0 1) (js_sub (real nj') 1);
                       wx = js_sub iFloat i0;
                       wy = js_sub jFloat j0;
                       idx00 = js_add (js_mul j0 (real ni')) i0;
                       idx10 = js_add (js_mul j0 (real ni')) i1;
                       idx01 = js_add (js_mul j1 (real ni')) i0;
                       idx11 = js_add (js_mul j1 (real ni')) i1
                   in Some \<lparr>i_lat = targetLat, i_lng = targetLng,
                            indices = Some (i0, i1, j0, j1, wx, wy),
                            i_values = fold (\<lambda>p r. case data_property d p of
                                                      None \<Rightarrow> r
                                                    | Some arr \<Rightarrow>
                                                        AList.update p
                                                          (interpolate_array arr idx00 idx10
                                                             idx01 idx11 wx wy) r)
                                         parameters' []\<rparr>)
            | _ \<Rightarrow>
                Some \<lparr>i_lat = targetLat, i_lng = targetLng, indices = None,
                      i_values = fold (\<lambda>p r. case data_property d p of
                                                None \<Rightarrow> r
                                              | Some arr \<Rightarrow> AList.update p None r)
                                   parameters' []\<rparr>))"

section \<open>Concrete inputs\<close>

text \<open>
  A complete message of 41 bytes with edition byte 1: the indicator section (total
  length 41), an identification section of 21 bytes and the end section.
\<close>

definition edition1_file :: buffer where
  "edition1_file =
     [71, 82, 73, 66, 0, 0, 0, 1, 0, 0, 0, 0, 0, 0, 0, 41, 0, 0, 0, 21, 1, 0, 0, 0, 0, 0,
     0, 0, 0, 0, 0, 0, 0, 0, 0, 0, 0, 55, 55, 55, 55]"

text \<open>
  A grid definition section of 72 bytes, template 0, all fields zero but the 32-bit
  integer at bytes 30 to 33 of the section, which is 5.
\<close>

definition grid_section :: buffer where
  "grid_section =
     [0, 0, 0, 72, 3, 0, 0, 0, 0, 0, 0, 0, 0, 0, 0, 0, 0, 0, 0, 0, 0, 0, 0, 0, 0, 0, 0,
     0, 0, 0, 0, 0, 0, 5, 0, 0, 0, 0, 0, 0, 0, 0, 0, 0, 0, 0, 0, 0, 0, 0, 0, 0, 0, 0, 0,
     0, 0, 0, 0, 0, 0, 0, 0, 0, 0, 0, 0, 0, 0, 0, 0, 0]"

text \<open>
  A template 5.3 with one group of width 0 and length 3, group references of 8 bits,
  spatial differencing of order 1 and one extra descriptor octet.  Its payload in the
  theorems below is \<open>64 82 02\<close>: \<open>h1 = 100\<close>, sign 1 and magnitude 2, reference 2.
\<close>

definition differenced_template :: drs_template where
  "differenced_template =
     \<lparr>referenceValue = 0, binaryScaleFactor = 0, decimalScaleFactor = 0, numberOfBits = 8,
      typeOfOriginalFieldValues = 0, groups = None\<rparr>"

definition differenced_groups :: group_fields where
  "differenced_groups =
     \<lparr>groupSplittingMethod = 1, missingValueManagement = 0,
      primaryMissingValue = 0, secondaryMissingValue = 0,
      numberOfGroups = 1, referenceForGroupWidths = 0, numberOfBitsForGroupWidths = 0,
      referenceForGroupLengths = 0, lengthIncrementForGroupLengths = 0,
      trueLengthOfLastGroup = 3, numberOfBitsForScaledGroupLengths = 0,
      orderOfSpatialDifferencing = 1, numberOfOctetsExtraDescriptors = Some 1\<rparr>"

text \<open>
  A complete message of 175 bytes: the indicator section (edition 2, total length
  175), the identification section (21 bytes), a grid definition section (72 bytes,
  template 0) of one column and two rows, the first point at latitude 1 and longitude
  0, both increments 1, scanning mode 0 (rows from north to south), a product
  definition section (34 bytes) with the template bytes \<open>wind_template\<close>, a data
  representation section (21 bytes, template 0, two points, reference value 0, both
  scale factors 0, 8 bits a value), the data section with the two bytes 10 and 20, and
  the end section.
\<close>

definition wind_file :: buffer where
  "wind_file =
     [71, 82, 73, 66, 0, 0, 0, 2, 0, 0, 0, 0, 0, 0, 0, 175, 0, 0, 0, 21, 1, 0, 7, 0, 0,
     2, 1, 1, 7, 233, 10, 13, 12, 0, 0, 0, 1, 0, 0, 0, 72, 3, 0, 0, 0, 0, 2, 0, 0, 0, 0,
     6, 0, 0, 0, 0, 0, 0, 0, 0, 0, 0, 0, 0, 0, 0, 0, 0, 0, 0, 1, 0, 0, 0, 2, 0, 0, 0, 0,
     0, 0, 0, 0, 0, 15, 66, 64, 0, 0, 0, 0, 48, 0, 0, 0, 0, 0, 0, 0, 0, 0, 15, 66, 64, 0,
     15, 66, 64, 0, 0, 0, 0, 34, 4, 0, 0, 0, 0, 2, 2, 2, 0, 96, 0, 0, 0, 1, 0, 0, 0, 33,
     103, 0, 0, 0, 0, 10, 255, 0, 0, 0, 0, 0, 0, 0, 0, 21, 5, 0, 0, 0, 2, 0, 0, 0, 0, 0,
     0, 0, 0, 0, 0, 8, 0, 0, 0, 0, 7, 7, 10, 20, 55, 55, 55, 55]"

text \<open>
  The 25 template bytes of its section 4 (product definition template 4.0): category
  2, number 2 (the u-component of the wind), hours as the unit of the forecast time at
  byte 8, the forecast time 33 at bytes 9 to 12, the type 103 of the first fixed
  surface (height above the ground) at byte 13, its scale factor 0 at byte 14 and its
  scaled value 10 at bytes 15 to 18.
\<close>

definition wind_template :: "byte list" where
  "wind_template =
       [2, 2, 2, 0, 96, 0, 0, 0, 1, 0, 0, 0, 33, 103, 0, 0, 0, 0, 10, 255, 0, 0, 0, 0, 0]"

text \<open>The grid, the message and the data that the source derives from this file.\<close>

definition wind_grid :: gridTemplate0 where
  "wind_grid =
     \<lparr>shapeOfEarth = 6,
      scaleFactorOfRadiusOfSphericalEarth = 0,
      scaledValueOfRadiusOfSphericalEarth = 0,
      scaleFactorOfEarthMajorAxis = 0,
      scaledValueOfEarthMajorAxis = 0,
      scaleFactorOfEarthMinorAxis = 0,
      scaledValueOfEarthMinorAxis = 0,
      ni = 1, nj = 2,
      basicAngleOfInitialProductionDomain = 0,
      subdivisionsOfBasicAngle = 0,
      latitudeOfFirstGridPoint = 1,
      longitudeOfFirstGridPoint = 0,
      resolutionAndComponentFlags = 48,
      latitudeOfLastGridPoint = 0,
      longitudeOfLastGridPoint = 0,
      latitudeOfLastGridPointFromFile = 0,
      longitudeOfLastGridPointFromFile = 0,
      iDirectionIncrement = 1,
      jDirectionIncrement = 1,
      scanningMode = 0\<rparr>"

definition wind_message :: message where
  "wind_message =
     \<lparr>discipline = 0, edition = 2, totalLength = 175,
      sections =
        \<lparr>section1 = \<lparr>s1_length = 21, centreId = 7, subCentreId = 0,
                      masterTableVersion = 2, localTableVersion = 1,
                      significanceOfReferenceTime = 1,
                      year = 2025, month = 10, day = 13, hour = 12, minute = 0, second = 0,
                      productionStatus = 0, typeOfData = 1\<rparr>,
         section2 = None,
         section3 = Some \<lparr>s3_length = 72, source = 0, s3_numberOfDataPoints = 2,
                           numberOfOctetsForOptional = 0, interpretationOfOptional = 0,
                           gridDefinitionTemplateNumber = 0,
                           gridTemplate = Some wind_grid\<rparr>,
         section4 = Some \<lparr>s4_length = 34, numberOfCoordinateValues = 0,
                           productDefinitionTemplateNumber = 0,
                           templateData = wind_template\<rparr>,
         section5 = Some \<lparr>s5_length = 21, s5_numberOfDataPoints = 2,
                           dataRepresentationTemplateNumber = 0,
                           template = Some \<lparr>referenceValue = 0, binaryScaleFactor = 0,
                                            decimalScaleFactor = 0, numberOfBits = 8,
                                            typeOfOriginalFieldValues = 0, groups = None\<rparr>\<rparr>,
         section6 = None,
         section7 = Some \<lparr>s7_length = 7, data = Some [10, 20], rawData = None\<rparr>\<rparr>\<rparr>"

definition wind_data :: data_result where
  "wind_data =
     \<lparr>lat = [1, 0], lng = [0, 0],
      grid = \<lparr>m_ni = 1, m_nj = 2,
               latMin = Finite 0, latMax = Finite 1, lngMin = Finite 0, lngMax = Finite 0,
               latIncrement = 1, lngIncrement = 1, m_scanningMode = 0\<rparr>,
      numPoints = 2,
      params = [(''ugrd'', [10, 20])],
      levels = None\<rparr>"

text \<open>
  The same file with the longitude of the first grid point one millionth of a degree
  west of Greenwich: the four bytes of that field, at offset 50 of the grid definition
  section, are \<open>FF FF FF FF\<close>, which \<open>getInt32\<close> reads as \<open>-1\<close>.
\<close>

definition west_file :: buffer where
  "west_file =
     [71, 82, 73, 66, 0, 0, 0, 2, 0, 0, 0, 0, 0, 0, 0, 175, 0, 0, 0, 21, 1, 0, 7, 0, 0,
     2, 1, 1, 7, 233, 10, 13, 12, 0, 0, 0, 1, 0, 0, 0, 72, 3, 0, 0, 0, 0, 2, 0, 0, 0,
     0, 6, 0, 0, 0, 0, 0, 0, 0, 0, 0, 0, 0, 0, 0, 0, 0, 0, 0, 0, 1, 0, 0, 0, 2, 0, 0,
     0, 0, 0, 0, 0, 0, 0, 15, 66, 64, 255, 255, 255, 255, 48, 0, 0, 0, 0, 0, 0, 0, 0,
     0, 15, 66, 64, 0, 15, 66, 64, 0, 0, 0, 0, 34, 4, 0, 0, 0, 0, 2, 2, 2, 0, 96, 0, 0,
     0, 1, 0, 0, 0, 33, 103, 0, 0, 0, 0, 10, 255, 0, 0, 0, 0, 0, 0, 0, 0, 21, 5, 0, 0,
     0, 2, 0, 0, 0, 0, 0, 0, 0, 0, 0, 0, 8, 0, 0, 0, 0, 7, 7, 10, 20, 55, 55, 55, 55]"

definition west_grid :: gridTemplate0 where
  "west_grid =
     wind_grid\<lparr>longitudeOfFirstGridPoint := js_div (- 1) 1000000,
               longitudeOfLastGridPoint := js_div (- 1) 1000000\<rparr>"

definition west_message :: message where
  "west_message =
     wind_message\<lparr>sections := (sections wind_message)
        \<lparr>section3 := Some \<lparr>s3_length = 72, source = 0, s3_numberOfDataPoints = 2,
                             numberOfOctetsForOptional = 0, interpretationOfOptional = 0,
                             gridDefinitionTemplateNumber = 0,
                             gridTemplate = Some west_grid\<rparr>\<rparr>\<rparr>"

text \<open>The data that \<open>getData\<close> derives from it with \<open>longitudeFormat: '0-360'\<close>.\<close>

definition west_data :: data_result where
  "west_data =
     \<lparr>lat = [1, 0], lng = [360, 360],
      grid = \<lparr>m_ni = 1, m_nj = 2,
               latMin = Finite 0, latMax = Finite 1,
               lngMin = Finite 360, lngMax = Finite 360,
               latIncrement = 1, lngIncrement = 1, m_scanningMode = 0\<rparr>,
      numPoints = 2,
      params = [(''ugrd'', [10, 20])],
      levels = None\<rparr>"






section \<open>Evaluation and helper lemmas\<close>

lemmas fl_eval = fl32_def fl64_def round_to_def ilog2_def rne_def bit_length.simps
  power_int_minus_divide Let_def js_add_def js_sub_def js_mul_def js_div_def js_pow_def

lemmas view_eval = getUint8_def getUint16_def getUint32_def getInt16_def getInt32_def
  get_bytes_def be_nat_def to_signed_def ebind_def chars4_def

lemma ebind_Inr_iff: "ebind m f = Inr y \<longleftrightarrow> (\<exists>x. m = Inr x \<and> f x = Inr y)"
  by (cases m) (simp_all add: ebind_def)

subsection \<open>The loops of the walker, one iteration at a time\<close>

lemma parse_loop_stop: "\<not> offset < length view \<Longrightarrow> parse_loop view offset ms = Some ms"
  by (subst parse_loop.simps) simp

lemma parse_loop_message:
  "offset < length view \<Longrightarrow> parseMessage view offset = Some (Inr (Some m, offset')) \<Longrightarrow>
   parse_loop view offset ms = parse_loop view offset' (ms @ [m])"
  by (subst parse_loop.simps) simp

lemma parseSections_end:
  "real offset < limit \<Longrightarrow> chars4 view offset = Inr sevens \<Longrightarrow>
   parseSections view limit offset secs = Some (Inr (secs, offset + 4))"
  by (subst parseSections.simps) (simp add: parseSection8_def ebind_def)

text \<open>
  When between 1 and 15 bytes are left, \<open>parseSection0\<close> returns \<open>null\<close> without
  moving the cursor and the loop of \<open>parse\<close> comes back to the same state: it has no
  result.
\<close>

lemma parse_loop_tail_no_result:
  assumes "parse_loop view offset messages = Some r"
  shows "\<not> (offset < length view \<and> length view < offset + 16)"
proof (rule parse_loop.raw_induct
         [where P = "\<lambda>v off ms y. \<not> (off < length v \<and> length v < off + 16)", OF _ assms])
  fix f v off ms y
  assume IH: "\<And>v off ms y. f v off ms = Some y \<Longrightarrow> \<not> (off < length v \<and> length v < off + 16)"
    and eq: "(if off < length v
              then case parseMessage v off of None \<Rightarrow> None
                   | Some (Inl e) \<Rightarrow> Some ms
                   | Some (Inr (None, offset')) \<Rightarrow> f v offset' ms
                   | Some (Inr (Some m, offset')) \<Rightarrow> f v offset' (ms @ [m])
              else Some ms) = Some y"
  show "\<not> (off < length v \<and> length v < off + 16)"
  proof
    assume a: "off < length v \<and> length v < off + 16"
    then have pm: "parseMessage v off = Some (Inr (None, off))"
      by (simp add: parseMessage_def parseSection0_def)
    from eq a pm have "f v off ms = Some y" by simp
    from IH[OF this] a show False by simp
  qed
qed

lemma parse_loop_tail:
  assumes "offset < length view" "length view < offset + 16"
  shows "parse_loop view offset messages = None"
  using parse_loop_tail_no_result[of view offset messages] assms
  by (cases "parse_loop view offset messages") auto

subsection \<open>The message with edition 1\<close>

lemma edition1_length: "length edition1_file = 41"
  by (simp add: edition1_file_def)

lemma edition1_section0:
  "parseSection0 edition1_file 0
     = Inr (Some (\<lparr>signature = GRIB, s0_discipline = 0, s0_edition = 1,
                   s0_totalLength = 41\<rparr>, 16))"
  by (simp add: parseSection0_def readUint64_def GRIB_def view_eval fl_eval edition1_file_def)

lemma edition1_section1:
  "parseSection1 edition1_file 16
     = Inr (\<lparr>s1_length = 21, centreId = 0, subCentreId = 0,
             masterTableVersion = 0, localTableVersion = 0,
             significanceOfReferenceTime = 0,
             year = 0, month = 0, day = 0, hour = 0, minute = 0, second = 0,
             productionStatus = 0, typeOfData = 0\<rparr>, 37)"
  by (simp add: parseSection1_def view_eval edition1_file_def)

lemma edition1_end: "chars4 edition1_file 37 = Inr sevens"
  by (simp add: view_eval edition1_file_def sevens_def)

lemma edition1_limit: "js_add 0 41 = 41"
  by (simp add: fl_eval)

lemma edition1_message:
  "parseMessage edition1_file 0
     = Some (Inr (Some \<lparr>discipline = 0, edition = 1, totalLength = 41,
                        sections = \<lparr>section1 = \<lparr>s1_length = 21, centreId = 0, subCentreId = 0,
                                      masterTableVersion = 0, localTableVersion = 0,
                                      significanceOfReferenceTime = 0,
                                      year = 0, month = 0, day = 0, hour = 0, minute = 0,
                                      second = 0, productionStatus = 0, typeOfData = 0\<rparr>,
                                    section2 = None, section3 = None, section4 = None,
                                    section5 = None, section6 = None, section7 = None\<rparr>\<rparr>,
                  41))"
  by (simp add: parseMessage_def edition1_section0 edition1_section1 edition1_limit
        parseSections_end edition1_end)

subsection \<open>32-bit arithmetic of the integer field\<close>

lemma to_int32_add_left: "to_int32 (to_int32 x + y) = to_int32 (x + y)"
  by (simp add: to_int32_def mod_simps algebra_simps)

lemma to_int32_sint: "to_int32 (sint (w :: 32 word)) = sint w"
  using sint_range_size[of w] by (simp add: to_int32_def word_size)

lemma readBits_int32: "readBits view bo n = Inr v \<Longrightarrow> to_int32 v = v"
  by (auto simp: readBits_def Let_def ebind_Inr_iff to_int32_sint split: if_splits)

lemma order1_step_eq:
  "1 \<le> n \<Longrightarrow> n < length I \<Longrightarrow>
   order1_step g n I = I[n := to_int32 (I ! n + g + I ! (n - 1))]"
  by (simp add: order1_step_def Let_def to_int32_add_left)


lemma order1_fold:
  assumes "m \<le> length I0"
  shows "length (fold (order1_step g) [1 ..< m] I0) = length I0
       \<and> (\<forall>k. (m \<le> k \<or> k = 0) \<and> k < length I0 \<longrightarrow> fold (order1_step g) [1 ..< m] I0 ! k = I0 ! k)
       \<and> (\<forall>k. 1 \<le> k \<and> k < m \<longrightarrow>
              fold (order1_step g) [1 ..< m] I0 ! k
                = to_int32 (I0 ! k + g + fold (order1_step g) [1 ..< m] I0 ! (k - 1)))"
  using assms
proof (induction m)
  case 0
  then show ?case by simp
next
  case (Suc m)
  show ?case
  proof (cases "m = 0")
    case True
    then show ?thesis by simp
  next
    case False
    define F where "F = fold (order1_step g) [1 ..< m] I0"
    from Suc.prems have m: "m < length I0" by simp
    from Suc.IH m have len: "length F = length I0"
      and keep: "\<And>k. (m \<le> k \<or> k = 0) \<Longrightarrow> k < length I0 \<Longrightarrow> F ! k = I0 ! k"
      and rec: "\<And>k. 1 \<le> k \<Longrightarrow> k < m \<Longrightarrow> F ! k = to_int32 (I0 ! k + g + F ! (k - 1))"
      by (simp_all add: F_def)
    from False have upt: "[1 ..< Suc m] = [1 ..< m] @ [m]" by simp
    have F': "fold (order1_step g) [1 ..< Suc m] I0 = F[m := to_int32 (I0 ! m + g + F ! (m - 1))]"
    proof -
      have "fold (order1_step g) [1 ..< Suc m] I0 = fold (order1_step g) ([1 ..< m] @ [m]) I0"
        by (simp only: upt)
      also have "\<dots> = order1_step g m F" by (simp add: F_def)
      also have "\<dots> = F[m := to_int32 (I0 ! m + g + F ! (m - 1))]"
        using order1_step_eq[of m F g] False m len keep[of m] by simp
      finally show ?thesis .
    qed
    have n1: "F[m := v] ! k = (if k = m then v else F ! k)" if "k < length I0" for k v
      using that len by (simp add: nth_list_update)
    show ?thesis
    proof (intro conjI allI impI)
      show "length (fold (order1_step g) [1..<Suc m] I0) = length I0"
        unfolding F' by (simp add: len)
    next
      fix k assume "(Suc m \<le> k \<or> k = 0) \<and> k < length I0"
      then show "fold (order1_step g) [1..<Suc m] I0 ! k = I0 ! k"
        unfolding F' using False keep[of k] by (auto simp: n1)
    next
      fix k assume k: "1 \<le> k \<and> k < Suc m"
      then have kl: "k < length I0" "k - 1 < length I0" "k - 1 \<noteq> m" using m by auto
      show "fold (order1_step g) [1..<Suc m] I0 ! k =
            to_int32 (I0 ! k + g + fold (order1_step g) [1..<Suc m] I0 ! (k - 1))"
      proof (cases "k = m")
        case True
        then show ?thesis unfolding F' using kl by (simp add: n1)
      next
        case False
        with k have "k < m" by simp
        with rec[of k] k show ?thesis unfolding F' using kl by (simp add: n1)
      qed
    qed
  qed
qed

lemma reverse_order1_props:
  "length (reverse_order1 h1 g I) = length I"
  "0 < length I \<Longrightarrow> reverse_order1 h1 g I ! 0 = to_int32 h1"
  "1 \<le> n \<Longrightarrow> n < length I \<Longrightarrow>
     reverse_order1 h1 g I ! n = to_int32 (I ! n + g + reverse_order1 h1 g I ! (n - 1))"
proof -
  note f = order1_fold[of "length I" "I[0 := to_int32 h1]" g, simplified]
  show "length (reverse_order1 h1 g I) = length I"
    using f by (simp add: reverse_order1_def)
  show "0 < length I \<Longrightarrow> reverse_order1 h1 g I ! 0 = to_int32 h1"
    using f by (simp add: reverse_order1_def)
  show "1 \<le> n \<Longrightarrow> n < length I \<Longrightarrow>
     reverse_order1 h1 g I ! n = to_int32 (I ! n + g + reverse_order1 h1 g I ! (n - 1))"
    using f by (simp add: reverse_order1_def)
qed


lemma order2_step_eq:
  assumes "2 \<le> n" "n < length I"
  shows "order2_step g n I = I[n := to_int32 (I ! n + g + 2 * I ! (n - 1) - I ! (n - 2))]"
proof -
  have "to_int32 (to_int32 (I ! n + g) + 2 * I ! (n - 1) - I ! (n - 2))
        = to_int32 (I ! n + g + 2 * I ! (n - 1) - I ! (n - 2))"
    using to_int32_add_left[of "I ! n + g" "2 * I ! (n - 1) - I ! (n - 2)"]
    by (simp add: algebra_simps)
  with assms show ?thesis
    by (simp add: order2_step_def Let_def)
qed

lemma order2_fold:
  assumes "m \<le> length I0"
  shows "length (fold (order2_step g) [2 ..< m] I0) = length I0
       \<and> (\<forall>k. (m \<le> k \<or> k < 2) \<and> k < length I0 \<longrightarrow> fold (order2_step g) [2 ..< m] I0 ! k = I0 ! k)
       \<and> (\<forall>k. 2 \<le> k \<and> k < m \<longrightarrow>
              fold (order2_step g) [2 ..< m] I0 ! k
                = to_int32 (I0 ! k + g + 2 * fold (order2_step g) [2 ..< m] I0 ! (k - 1)
                              - fold (order2_step g) [2 ..< m] I0 ! (k - 2)))"
  using assms
proof (induction m)
  case 0
  then show ?case by simp
next
  case (Suc m)
  show ?case
  proof (cases "m < 2")
    case True
    then have "[2 ..< Suc m] = []" by simp
    with True show ?thesis by simp
  next
    case False
    define F where "F = fold (order2_step g) [2 ..< m] I0"
    from Suc.prems have m: "m < length I0" by simp
    from Suc.IH m have len: "length F = length I0"
      and keep: "\<And>k. (m \<le> k \<or> k < 2) \<Longrightarrow> k < length I0 \<Longrightarrow> F ! k = I0 ! k"
      and rec: "\<And>k. 2 \<le> k \<Longrightarrow> k < m \<Longrightarrow>
                  F ! k = to_int32 (I0 ! k + g + 2 * F ! (k - 1) - F ! (k - 2))"
      by (simp_all add: F_def)
    from False have upt: "[2 ..< Suc m] = [2 ..< m] @ [m]" by simp
    have F': "fold (order2_step g) [2 ..< Suc m] I0
              = F[m := to_int32 (I0 ! m + g + 2 * F ! (m - 1) - F ! (m - 2))]"
    proof -
      have "fold (order2_step g) [2 ..< Suc m] I0 = fold (order2_step g) ([2 ..< m] @ [m]) I0"
        by (simp only: upt)
      also have "\<dots> = order2_step g m F" by (simp add: F_def)
      also have "\<dots> = F[m := to_int32 (I0 ! m + g + 2 * F ! (m - 1) - F ! (m - 2))]"
        using order2_step_eq[of m F g] False m len keep[of m] by simp
      finally show ?thesis .
    qed
    have n1: "F[m := v] ! k = (if k = m then v else F ! k)" if "k < length I0" for k v
      using that len by (simp add: nth_list_update)
    show ?thesis
    proof (intro conjI allI impI)
      show "length (fold (order2_step g) [2..<Suc m] I0) = length I0"
        unfolding F' by (simp add: len)
    next
      fix k assume "(Suc m \<le> k \<or> k < 2) \<and> k < length I0"
      then show "fold (order2_step g) [2..<Suc m] I0 ! k = I0 ! k"
        unfolding F' using False keep[of k] by (auto simp: n1)
    next
      fix k assume k: "2 \<le> k \<and> k < Suc m"
      then have kl: "k < length I0" "k - 1 < length I0" "k - 1 \<noteq> m"
                    "k - 2 < length I0" "k - 2 \<noteq> m" using m by auto
      show "fold (order2_step g) [2..<Suc m] I0 ! k =
            to_int32 (I0 ! k + g + 2 * fold (order2_step g) [2..<Suc m] I0 ! (k - 1)
                       - fold (order2_step g) [2..<Suc m] I0 ! (k - 2))"
      proof (cases "k = m")
        case True
        then show ?thesis unfolding F' using kl by (simp add: n1)
      next
        case False
        with k have "k < m" by simp
        with rec[of k] k show ?thesis unfolding F' using kl by (simp add: n1)
      qed
    qed
  qed
qed

lemma reverse_order2_props:
  "length (reverse_order2 h1 h2 g I) = length I"
  "0 < length I \<Longrightarrow> reverse_order2 h1 h2 g I ! 0 = to_int32 h1"
  "Suc 0 < length I \<Longrightarrow> reverse_order2 h1 h2 g I ! Suc 0 = to_int32 h2"
  "2 \<le> n \<Longrightarrow> n < length I \<Longrightarrow>
     reverse_order2 h1 h2 g I ! n
       = to_int32 (I ! n + g + 2 * reverse_order2 h1 h2 g I ! (n - 1)
                     - reverse_order2 h1 h2 g I ! (n - 2))"
proof -
  note f = order2_fold[of "length I" "I[0 := to_int32 h1, 1 := to_int32 h2]" g, simplified]
  show "length (reverse_order2 h1 h2 g I) = length I"
    using f by (simp add: reverse_order2_def)
  show "0 < length I \<Longrightarrow> reverse_order2 h1 h2 g I ! 0 = to_int32 h1"
    using f by (simp add: reverse_order2_def)
  show "Suc 0 < length I \<Longrightarrow> reverse_order2 h1 h2 g I ! Suc 0 = to_int32 h2"
    using f by (simp add: reverse_order2_def)
  show "2 \<le> n \<Longrightarrow> n < length I \<Longrightarrow>
     reverse_order2 h1 h2 g I ! n
       = to_int32 (I ! n + g + 2 * reverse_order2 h1 h2 g I ! (n - 1)
                     - reverse_order2 h1 h2 g I ! (n - 2))"
    using f by (simp add: reverse_order2_def)
qed



subsection \<open>The header of the spatial differencing\<close>

lemma read_descriptors_Inr:
  assumes "read_descriptors view bitPos nbitsd sdorder = Inr (h1, h2, gmin, bitOffset)"
    and "sdorder = 1 \<or> sdorder = 2"
  shows "\<exists>isign magnitude.
        readBits view bitPos nbitsd = Inr h1
      \<and> (sdorder = 2 \<longrightarrow> readBits view (bitPos + nbitsd) nbitsd = Inr h2)
      \<and> readBits view (bitPos + sdorder * nbitsd) 1 = Inr isign
      \<and> readBits view (bitPos + sdorder * nbitsd + 1) (nbitsd - 1) = Inr magnitude
      \<and> gmin = (if isign = 1 then - magnitude else magnitude)"
proof -
  from assms(1) obtain a b bitPos2 isign magnitude where
    r1: "readBits view bitPos nbitsd = Inr a"
    and r2: "(if sdorder = 2
            then ebind (readBits view (bitPos + nbitsd) nbitsd)
                   (\<lambda>h2. Inr (h2, bitPos + nbitsd + nbitsd))
            else Inr (0, bitPos + nbitsd)) = Inr (b, bitPos2)"
    and r3: "readBits view bitPos2 1 = Inr isign"
    and r4: "readBits view (bitPos2 + 1) (nbitsd - 1) = Inr magnitude"
    and r5: "(h1, h2, gmin, bitOffset)
             = (a, b, (if isign = 1 then - magnitude else magnitude), bitPos2 + 1 + (nbitsd - 1))"
    unfolding read_descriptors_def ebind_Inr_iff by (auto simp: ebind_Inr_iff)
  from r2 assms(2) have bp: "bitPos2 = bitPos + sdorder * nbitsd"
    and b2: "sdorder = 2 \<longrightarrow> readBits view (bitPos + nbitsd) nbitsd = Inr b"
    by (auto simp: ebind_Inr_iff split: if_splits)
  from r1 r3 r4 r5 bp b2 show ?thesis by auto
qed

text \<open>
  The header and the reversal on any field: what \<open>spatial_header\<close> returns for 1 or 2
  extra octets, and the recurrences of \<open>reverse_spatial_differencing\<close>.
\<close>

lemma reversal_after_header:
  assumes hdr: "spatial_header view offset sdorder ne = Inr (h1, h2, gmin, bitOffset)"
    and ne: "ne = 1 \<or> ne = 2"
    and ord: "sdorder = 1 \<or> sdorder = 2"
  shows
   "(\<exists>isign magnitude.
        readBits view (offset * 8) (ne * 8) = Inr h1
      \<and> (sdorder = 2 \<longrightarrow> readBits view (offset * 8 + ne * 8) (ne * 8) = Inr h2)
      \<and> readBits view (offset * 8 + sdorder * (ne * 8)) 1 = Inr isign
      \<and> readBits view (offset * 8 + sdorder * (ne * 8) + 1) (ne * 8 - 1) = Inr magnitude
      \<and> gmin = (if isign = 1 then - magnitude else magnitude))
    \<and> (let J = reverse_spatial_differencing sdorder h1 h2 gmin I in
         length J = length I
       \<and> (0 < length I \<longrightarrow> J ! 0 = h1)
       \<and> (sdorder = 1 \<longrightarrow>
            (\<forall>n. 1 \<le> n \<and> n < length I \<longrightarrow> J ! n = to_int32 (I ! n + gmin + J ! (n - 1))))
       \<and> (sdorder = 2 \<longrightarrow>
            (1 < length I \<longrightarrow> J ! 1 = h2)
          \<and> (\<forall>n. 2 \<le> n \<and> n < length I \<longrightarrow>
                 J ! n = to_int32 (I ! n + gmin + 2 * J ! (n - 1) - J ! (n - 2)))))"
proof -
  from hdr ne ord
  have rd: "read_descriptors view (offset * 8) (ne * 8) sdorder = Inr (h1, h2, gmin, bitOffset)"
    by (auto simp: spatial_header_def Let_def split: if_splits)
  from read_descriptors_Inr[OF rd ord] obtain isign magnitude where
    f: "readBits view (offset * 8) (ne * 8) = Inr h1"
       "sdorder = 2 \<longrightarrow> readBits view (offset * 8 + ne * 8) (ne * 8) = Inr h2"
       "readBits view (offset * 8 + sdorder * (ne * 8)) 1 = Inr isign"
       "readBits view (offset * 8 + sdorder * (ne * 8) + 1) (ne * 8 - 1) = Inr magnitude"
       "gmin = (if isign = 1 then - magnitude else magnitude)"
    by blast
  have h1: "to_int32 h1 = h1" using f(1) by (rule readBits_int32)
  have h2: "sdorder = 2 \<Longrightarrow> to_int32 h2 = h2" using f(2) by (auto dest: readBits_int32)
  have J: "length (reverse_spatial_differencing sdorder h1 h2 gmin I) = length I
       \<and> (0 < length I \<longrightarrow> reverse_spatial_differencing sdorder h1 h2 gmin I ! 0 = h1)
       \<and> (sdorder = 1 \<longrightarrow>
            (\<forall>n. 1 \<le> n \<and> n < length I \<longrightarrow>
               reverse_spatial_differencing sdorder h1 h2 gmin I ! n
                 = to_int32 (I ! n + gmin + reverse_spatial_differencing sdorder h1 h2 gmin I ! (n - 1))))
       \<and> (sdorder = 2 \<longrightarrow>
            (1 < length I \<longrightarrow> reverse_spatial_differencing sdorder h1 h2 gmin I ! 1 = h2)
          \<and> (\<forall>n. 2 \<le> n \<and> n < length I \<longrightarrow>
                 reverse_spatial_differencing sdorder h1 h2 gmin I ! n
                   = to_int32 (I ! n + gmin
                        + 2 * reverse_spatial_differencing sdorder h1 h2 gmin I ! (n - 1)
                        - reverse_spatial_differencing sdorder h1 h2 gmin I ! (n - 2))))"
  proof (cases "sdorder = 1")
    case True
    then have e: "reverse_spatial_differencing sdorder h1 h2 gmin I = reverse_order1 h1 gmin I"
      by (simp add: reverse_spatial_differencing_def)
    show ?thesis
      unfolding e using True h1 by (simp add: reverse_order1_props)
  next
    case False
    with ord have o2: "sdorder = 2" by simp
    then have e: "reverse_spatial_differencing sdorder h1 h2 gmin I = reverse_order2 h1 h2 gmin I"
      by (simp add: reverse_spatial_differencing_def)
    show ?thesis
      unfolding e using o2 h1 h2 by (simp add: reverse_order2_props)
  qed
  from f J show ?thesis unfolding Let_def by blast
qed

subsection \<open>The integer field of the decoder\<close>

lemma constant_group_length:
  "length (fst (constant_group N r k st)) = length (fst st)"
  by (induction k arbitrary: st) (auto split: prod.splits)

lemma unpack_group_length:
  "unpack_group view maxBit N r w k st = Inr st' \<Longrightarrow> length (fst st) = N \<Longrightarrow>
   length (fst st') = N"
proof (induction k arbitrary: st)
  case 0
  then show ?case by simp
next
  case (Suc k)
  obtain ifld n bo where st: "st = (ifld, n, bo)" by (cases st)
  show ?case
  proof (cases "n < N")
    case False
    with Suc.prems st show ?thesis by simp
  next
    case True
    show ?thesis
    proof (cases "int bo + int w > maxBit")
      case True
      with Suc.prems st \<open>n < N\<close> show ?thesis by auto
    next
      case False
      with Suc.prems(1) st \<open>n < N\<close> obtain p where
        "unpack_group view maxBit N r w k (ifld[n := to_int32 (r + p)], n + 1, bo + w) = Inr st'"
        by (auto simp: ebind_Inr_iff)
      from Suc.IH[OF this] Suc.prems(2) st show ?thesis by simp
    qed
  qed
qed

lemma unpack_groups_length:
  "unpack_groups view maxBit N gs st = Inr st' \<Longrightarrow> length (fst st) = N \<Longrightarrow>
   length (fst st') = N"
proof (induction gs arbitrary: st)
  case Nil
  then show ?case by simp
next
  case (Cons g gs)
  obtain r w l where g: "g = (r, w, l)" by (cases g)
  show ?case
  proof (cases "w \<noteq> 0")
    case True
    with Cons.prems(1) g obtain st1 where
      u: "unpack_group view maxBit N r w l st = Inr st1"
      and r: "(case st1 of (ifld, n, bitOffset) \<Rightarrow>
                 if n \<ge> N then Inr st1 else unpack_groups view maxBit N gs st1) = Inr st'"
      by (auto simp: ebind_Inr_iff)
    from unpack_group_length[OF u Cons.prems(2)] have l1: "length (fst st1) = N" .
    from r l1 Cons.IH[of st1] show ?thesis
      by (auto split: prod.splits if_splits)
  next
    case False
    with Cons.prems g Cons.IH[of "constant_group N r l st"] show ?thesis
      by (simp add: constant_group_length)
  qed
qed

lemma unpack_field_length:
  "unpack_field view offset dataLength tmpl g N bo = Inr I \<Longrightarrow> length I = N"
  by (auto simp: unpack_field_def Let_def ebind_Inr_iff dest!: unpack_groups_length)


lemma read_descriptors_cursor:
  assumes "read_descriptors view bitPos nbitsd sdorder = Inr (h1, h2, gmin, bitOffset)"
    and "sdorder = 1 \<or> sdorder = 2" and "0 < nbitsd"
  shows "bitOffset = bitPos + (sdorder + 1) * nbitsd"
  using assms
  by (auto simp: read_descriptors_def ebind_Inr_iff split: if_splits)

lemma differenced_header: "spatial_header [100, 0x82, 2] 0 1 1 = Inr (100, 0, - 2, 16)"
  by (simp add: spatial_header_def read_descriptors_def readBits_def ebind_def
        readBits_loop.simps getUint8_def)

lemma differenced_reference: "readBits [100, 0x82, 2] 16 8 = Inr 2"
  by (simp add: readBits_def ebind_def readBits_loop.simps getUint8_def)

lemma differenced_constant:
  "constant_group 3 2 3 (replicate 3 0, 0, 24) = ([2, 2, 2], 3, 24)"
  by (simp add: numeral_3_eq_3)

lemma differenced_unpack:
  "unpack_field [100, 0x82, 2] 0 3 differenced_template differenced_groups 3 16 = Inr [2, 2, 2]"
  by (simp add: unpack_field_def differenced_template_def differenced_groups_def
        read_group_array_def differenced_reference ebind_def to_uint8_def to_uint32_def
        differenced_constant)

lemma differenced_reversal:
  "reverse_spatial_differencing 1 100 0 (- 2) [2, 2, 2] = [100, 100, 100]"
  by (simp add: reverse_spatial_differencing_def reverse_order1_def order1_step_def
        to_int32_def upt_rec)

lemma differenced_scale: "scale_value 0 1 1 100 = 100"
  by (simp add: scale_value_def fl_eval)

lemma differenced_powers: "js_pow 2 0 = 1" "js_pow 10 0 = 1" "js_pow 10 (- 0) = 1"
  by (simp_all add: fl_eval)

lemma differenced_fields:
  "orderOfSpatialDifferencing differenced_groups = 1"
  "numberOfOctetsExtraDescriptors differenced_groups = Some 1"
  "numberOfGroups differenced_groups \<noteq> 0"
  "referenceValue differenced_template = 0" "binaryScaleFactor differenced_template = 0"
  "decimalScaleFactor differenced_template = 0"
  by (simp_all add: differenced_groups_def differenced_template_def)

lemma differenced_body:
  "complex_body [100, 0x82, 2] 0 3 differenced_template differenced_groups 3
     = Inr [100, 100, 100]"
  by (simp add: complex_body_def differenced_fields differenced_header[simplified]
        differenced_unpack differenced_reversal[simplified] differenced_scale
        differenced_powers ebind_def)

subsection \<open>Bytes before the cursor are not read\<close>

text \<open>
  Two buffers of the same length that agree from byte \<open>k\<close> on give the same result to
  every accessor, decoder and section parser called at an offset of at least \<open>k\<close>: the
  reads of the source go forward from the cursor, and every section moves the cursor
  forward.
\<close>

lemma ebind_cong_same:
  "m = m' \<Longrightarrow> (\<And>x. m' = Inr x \<Longrightarrow> f x = f' x) \<Longrightarrow> ebind m f = ebind m' f'"
  by (cases m') (simp_all add: ebind_def)

lemma getUint8_same:
  assumes "length v = length v'" "drop k v = drop k v'" "k \<le> i"
  shows "getUint8 v i = getUint8 v' i"
proof (cases "i < length v")
  case True
  have "v ! i = drop k v ! (i - k)" using assms(3) True by simp
  also have "\<dots> = drop k v' ! (i - k)" by (simp add: assms(2))
  also have "\<dots> = v' ! i" using assms(1,3) True by simp
  finally show ?thesis using True assms(1) by (simp add: getUint8_def)
next
  case False
  with assms(1) show ?thesis by (simp add: getUint8_def)
qed

lemma drop_same:
  assumes "drop k v = drop k v'" "k \<le> i"
  shows "drop i v = drop i v'"
proof -
  have "drop i v = drop (i - k) (drop k v)" using assms(2) by simp
  also have "\<dots> = drop (i - k) (drop k v')" by (simp add: assms(1))
  also have "\<dots> = drop i v'" using assms(2) by simp
  finally show ?thesis .
qed

lemma get_bytes_same:
  assumes "length v = length v'" "drop k v = drop k v'" "k \<le> i"
  shows "get_bytes v i n = get_bytes v' i n"
  using drop_same[OF assms(2,3)] assms(1) by (simp add: get_bytes_def)

lemma uint8_view_same:
  assumes "length v = length v'" "drop k v = drop k v'" "k \<le> i"
  shows "uint8_view v i l = uint8_view v' i l"
  using drop_same[OF assms(2,3)] assms(1) by (simp add: uint8_view_def)

lemma accessors_same:
  assumes "length v = length v'" "drop k v = drop k v'" "k \<le> i"
  shows "getUint16 v i = getUint16 v' i" "getUint32 v i = getUint32 v' i"
    "getInt16 v i = getInt16 v' i" "getInt32 v i = getInt32 v' i"
    "getFloat32 v i = getFloat32 v' i"
  using get_bytes_same[OF assms]
  by (simp_all add: getUint16_def getUint32_def getInt16_def getInt32_def getFloat32_def)

lemma chars4_same:
  assumes "length v = length v'" "drop k v = drop k v'" "k \<le> i"
  shows "chars4 v i = chars4 v' i"
  using assms(3) by (simp add: chars4_def getUint8_same[OF assms(1,2)])

lemma readBits_loop_same:
  assumes "length v = length v'" "drop k v = drop k v'"
  shows "k \<le> byteOffset \<Longrightarrow>
    readBits_loop v byteOffset bitShift n bitsRead val
      = readBits_loop v' byteOffset bitShift n bitsRead val"
proof (induction "n - bitsRead" arbitrary: bitsRead val rule: less_induct)
  case less
  show ?case
  proof (cases "bitsRead < n")
    case False
    then show ?thesis
      by (subst readBits_loop.simps, subst (2) readBits_loop.simps) simp
  next
    case True
    let ?cur = "byteOffset + (bitShift + bitsRead) div 8"
    have g: "getUint8 v ?cur = getUint8 v' ?cur"
      using less.prems by (intro getUint8_same[OF assms]) simp
    let ?take = "min (n - bitsRead) (8 - (bitShift + bitsRead) mod 8)"
    have pos: "0 < ?take" using True by (simp add: min_def)
    have step: "\<And>val'. readBits_loop v byteOffset bitShift n (bitsRead + ?take) val'
                  = readBits_loop v' byteOffset bitShift n (bitsRead + ?take) val'"
      using True pos less.prems by (intro less.hyps) auto
    show ?thesis
      by (subst readBits_loop.simps, subst (2) readBits_loop.simps)
         (simp add: g step Let_def split: sum.splits)
  qed
qed

lemma readBits_same:
  assumes "length v = length v'" "drop k v = drop k v'" "8 * k \<le> bo"
  shows "readBits v bo n = readBits v' bo n"
proof -
  have "k \<le> bo div 8" using assms(3) by simp
  from readBits_loop_same[OF assms(1,2) this] assms(1) show ?thesis
    by (simp add: readBits_def Let_def)
qed


lemma simple_loop_same:
  assumes "length v = length v'" "drop k v = drop k v'"
  shows "8 * k \<le> bo \<Longrightarrow>
    simple_loop v bits R bs ds bo cnt = simple_loop v' bits R bs ds bo cnt"
proof (induction cnt arbitrary: bo)
  case 0
  show ?case by simp
next
  case (Suc cnt)
  have "8 * k \<le> bo + bits" using Suc.prems by simp
  from Suc.IH[OF this] readBits_same[OF assms Suc.prems] show ?case by simp
qed

lemma decodeSimplePacking_same:
  assumes "length v = length v'" "drop k v = drop k v'" "k \<le> off"
  shows "decodeSimplePacking v off dl tmpl N = decodeSimplePacking v' off dl tmpl N"
proof -
  have "8 * k \<le> off * 8" using assms(3) by simp
  from simple_loop_same[OF assms(1,2) this] show ?thesis
    by (simp add: decodeSimplePacking_def Let_def)
qed

lemma read_values_same:
  assumes "length v = length v'" "drop k v = drop k v'"
  shows "8 * k \<le> bo \<Longrightarrow> read_values v nbits bo cnt = read_values v' nbits bo cnt"
proof (induction cnt arbitrary: bo)
  case 0
  show ?case by simp
next
  case (Suc cnt)
  have "8 * k \<le> bo + nbits" using Suc.prems by simp
  from Suc.IH[OF this] readBits_same[OF assms Suc.prems] show ?case by simp
qed

lemma read_group_array_same:
  assumes "length v = length v'" "drop k v = drop k v'" "8 * k \<le> bo"
  shows "read_group_array v nbits bo G = read_group_array v' nbits bo G"
  using read_values_same[OF assms] by (simp add: read_group_array_def)

lemma read_group_array_mono:
  assumes "read_group_array v nbits bo G = Inr (vs, bo')"
  shows "bo \<le> bo'"
  using assms
  by (auto simp add: read_group_array_def ebind_Inr_iff Let_def split: if_splits)

lemma read_descriptors_same:
  assumes "length v = length v'" "drop k v = drop k v'" "8 * k \<le> bp"
  shows "read_descriptors v bp nb ord = read_descriptors v' bp nb ord"
proof -
  have r: "\<And>x n. bp \<le> x \<Longrightarrow> readBits v x n = readBits v' x n"
    using assms(3) by (intro readBits_same[OF assms(1,2)]) simp
  show ?thesis
    by (cases "ord = 2")
       (auto simp add: read_descriptors_def ebind_def r split: sum.splits)
qed

lemma spatial_header_same:
  assumes "length v = length v'" "drop k v = drop k v'" "k \<le> off"
  shows "spatial_header v off ord ne = spatial_header v' off ord ne"
proof -
  have "8 * k \<le> off * 8" using assms(3) by simp
  from read_descriptors_same[OF assms(1,2) this] show ?thesis
    by (simp add: spatial_header_def Let_def)
qed

lemma spatial_header_mono:
  assumes "spatial_header v off ord ne = Inr (h1, h2, m, bo)"
  shows "off * 8 \<le> bo"
  using assms
  by (auto simp add: spatial_header_def read_descriptors_def ebind_Inr_iff Let_def
      split: if_splits)

lemma unpack_group_same:
  assumes "length v = length v'" "drop k v = drop k v'"
  shows "8 * k \<le> snd (snd st) \<Longrightarrow>
     unpack_group v mx N r w cnt st = unpack_group v' mx N r w cnt st"
proof (induction cnt arbitrary: st)
  case 0
  show ?case by simp
next
  case (Suc cnt)
  obtain ifld n bo where st: "st = (ifld, n, bo)" by (cases st) auto
  have b: "8 * k \<le> bo" using Suc.prems st by simp
  have ih: "\<And>I. unpack_group v mx N r w cnt (I, n + 1, bo + w)
               = unpack_group v' mx N r w cnt (I, n + 1, bo + w)"
    using b by (intro Suc.IH) simp
  show ?case using readBits_same[OF assms b] ih by (simp add: st)
qed

lemma unpack_group_mono:
  "unpack_group v mx N r w cnt st = Inr st' \<Longrightarrow> snd (snd st) \<le> snd (snd st')"
proof (induction cnt arbitrary: st)
  case 0
  then show ?case by simp
next
  case (Suc cnt)
  obtain ifld n bo where st: "st = (ifld, n, bo)" by (cases st) auto
  show ?case
  proof (cases "n < N \<and> \<not> int bo + int w > mx")
    case False
    with Suc.prems st show ?thesis by (auto split: if_splits)
  next
    case True
    with Suc.prems st obtain p where
      "unpack_group v mx N r w cnt (ifld[n := to_int32 (r + p)], n + 1, bo + w) = Inr st'"
      by (auto simp add: ebind_Inr_iff)
    from Suc.IH[OF this] show ?thesis by (simp add: st)
  qed
qed

lemma constant_group_offset:
  "snd (snd (constant_group N r cnt st)) = snd (snd st)"
  by (induction cnt arbitrary: st) (auto split: prod.splits)

lemma unpack_groups_same:
  assumes "length v = length v'" "drop k v = drop k v'"
  shows "8 * k \<le> snd (snd st) \<Longrightarrow>
     unpack_groups v mx N gs st = unpack_groups v' mx N gs st"
proof (induction gs arbitrary: st)
  case Nil
  show ?case by simp
next
  case (Cons g gs)
  obtain r w l where g: "g = (r, w, l)" by (cases g) auto
  show ?case
  proof (cases "w = 0")
    case True
    have "8 * k \<le> snd (snd (constant_group N r l st))"
      using Cons.prems by (simp add: constant_group_offset)
    from Cons.IH[OF this] show ?thesis by (simp add: g True)
  next
    case False
    have u: "unpack_group v mx N r w l st = unpack_group v' mx N r w l st"
      by (rule unpack_group_same[OF assms Cons.prems])
    have "ebind (unpack_group v mx N r w l st)
            (\<lambda>st'. case st' of (ifld, n, bitOffset) \<Rightarrow>
                      if n \<ge> N then Inr st' else unpack_groups v mx N gs st')
        = ebind (unpack_group v' mx N r w l st)
            (\<lambda>st'. case st' of (ifld, n, bitOffset) \<Rightarrow>
                      if n \<ge> N then Inr st' else unpack_groups v' mx N gs st')"
    proof (rule ebind_cong_same[OF u])
      fix st'
      assume "unpack_group v' mx N r w l st = Inr st'"
      from unpack_group_mono[OF this] Cons.prems have "8 * k \<le> snd (snd st')" by simp
      from Cons.IH[OF this]
      show "(case st' of (ifld, n, bitOffset) \<Rightarrow>
               if n \<ge> N then Inr st' else unpack_groups v mx N gs st')
          = (case st' of (ifld, n, bitOffset) \<Rightarrow>
               if n \<ge> N then Inr st' else unpack_groups v' mx N gs st')"
        by (simp split: prod.splits)
    qed
    then show ?thesis by (simp add: g False)
  qed
qed

lemma unpack_field_same:
  assumes "length v = length v'" "drop k v = drop k v'" "8 * k \<le> bo1"
  shows "unpack_field v off dl tmpl g N bo1 = unpack_field v' off dl tmpl g N bo1"
  unfolding unpack_field_def Let_def
proof (rule ebind_cong_same, rule read_group_array_same[OF assms], clarify)
  fix gref bo2
  assume "read_group_array v' (numberOfBits tmpl) bo1 (numberOfGroups g) = Inr (gref, bo2)"
  from read_group_array_mono[OF this] assms(3) have b2: "8 * k \<le> bo2" by simp
  show "ebind (read_group_array v (numberOfBitsForGroupWidths g) bo2 (numberOfGroups g)) 
          (\<lambda>(gwidthRaw, bitOffset3).
        ebind (read_group_array v (numberOfBitsForScaledGroupLengths g) bitOffset3 (numberOfGroups g))
          (\<lambda>(glenRaw, bitOffset4).
         ebind (unpack_groups v ((int off + dl) * 8) N
                     (zip gref (zip (map (\<lambda>w. to_uint8 (int (to_uint8 w) + int (referenceForGroupWidths g)))
                        gwidthRaw) ((map (\<lambda>l. to_uint32 (int (to_uint32 l)
                                   * int (lengthIncrementForGroupLengths g)
                                   + int (referenceForGroupLengths g))) glenRaw)
                      [numberOfGroups g - 1 := trueLengthOfLastGroup g]))) (replicate N 0, 0, bitOffset4))
              (\<lambda>(ifld, n, bitOffset5). Inr ifld)))
      = ebind (read_group_array v' (numberOfBitsForGroupWidths g) bo2 (numberOfGroups g)) 
          (\<lambda>(gwidthRaw, bitOffset3).
        ebind (read_group_array v' (numberOfBitsForScaledGroupLengths g) bitOffset3 (numberOfGroups g))
          (\<lambda>(glenRaw, bitOffset4).
         ebind (unpack_groups v' ((int off + dl) * 8) N
                     (zip gref (zip (map (\<lambda>w. to_uint8 (int (to_uint8 w) + int (referenceForGroupWidths g)))
                        gwidthRaw) ((map (\<lambda>l. to_uint32 (int (to_uint32 l)
                                   * int (lengthIncrementForGroupLengths g)
                                   + int (referenceForGroupLengths g))) glenRaw)
                      [numberOfGroups g - 1 := trueLengthOfLastGroup g]))) (replicate N 0, 0, bitOffset4))
              (\<lambda>(ifld, n, bitOffset5). Inr ifld)))"
  proof (rule ebind_cong_same, rule read_group_array_same[OF assms(1,2) b2], clarify)
    fix gw bo3
    assume "read_group_array v' (numberOfBitsForGroupWidths g) bo2 (numberOfGroups g) = Inr (gw, bo3)"
    from read_group_array_mono[OF this] b2 have b3: "8 * k \<le> bo3" by simp
    show "ebind (read_group_array v (numberOfBitsForScaledGroupLengths g) bo3 (numberOfGroups g))
          (\<lambda>(glenRaw, bitOffset4).
         ebind (unpack_groups v ((int off + dl) * 8) N
                     (zip gref (zip (map (\<lambda>w. to_uint8 (int (to_uint8 w) + int (referenceForGroupWidths g)))
                        gw) ((map (\<lambda>l. to_uint32 (int (to_uint32 l)
                                   * int (lengthIncrementForGroupLengths g)
                                   + int (referenceForGroupLengths g))) glenRaw)
                      [numberOfGroups g - 1 := trueLengthOfLastGroup g]))) (replicate N 0, 0, bitOffset4))
              (\<lambda>(ifld, n, bitOffset5). Inr ifld))
        = ebind (read_group_array v' (numberOfBitsForScaledGroupLengths g) bo3 (numberOfGroups g))
          (\<lambda>(glenRaw, bitOffset4).
         ebind (unpack_groups v' ((int off + dl) * 8) N
                     (zip gref (zip (map (\<lambda>w. to_uint8 (int (to_uint8 w) + int (referenceForGroupWidths g)))
                        gw) ((map (\<lambda>l. to_uint32 (int (to_uint32 l)
                                   * int (lengthIncrementForGroupLengths g)
                                   + int (referenceForGroupLengths g))) glenRaw)
                      [numberOfGroups g - 1 := trueLengthOfLastGroup g]))) (replicate N 0, 0, bitOffset4))
              (\<lambda>(ifld, n, bitOffset5). Inr ifld))"
    proof (rule ebind_cong_same, rule read_group_array_same[OF assms(1,2) b3], clarify)
      fix gl bo4
      assume "read_group_array v' (numberOfBitsForScaledGroupLengths g) bo3 (numberOfGroups g) = Inr (gl, bo4)"
      from read_group_array_mono[OF this] b3 have b4: "8 * k \<le> snd (snd (replicate N (0::int), 0::nat, bo4))"
        by simp
      from unpack_groups_same[OF assms(1,2) b4]
      show "ebind (unpack_groups v ((int off + dl) * 8) N
                     (zip gref (zip (map (\<lambda>w. to_uint8 (int (to_uint8 w) + int (referenceForGroupWidths g)))
                        gw) ((map (\<lambda>l. to_uint32 (int (to_uint32 l)
                                   * int (lengthIncrementForGroupLengths g)
                                   + int (referenceForGroupLengths g))) gl)
                      [numberOfGroups g - 1 := trueLengthOfLastGroup g]))) (replicate N 0, 0, bo4))
              (\<lambda>(ifld, n, bitOffset5). Inr ifld)
        = ebind (unpack_groups v' ((int off + dl) * 8) N
                     (zip gref (zip (map (\<lambda>w. to_uint8 (int (to_uint8 w) + int (referenceForGroupWidths g)))
                        gw) ((map (\<lambda>l. to_uint32 (int (to_uint32 l)
                                   * int (lengthIncrementForGroupLengths g)
                                   + int (referenceForGroupLengths g))) gl)
                      [numberOfGroups g - 1 := trueLengthOfLastGroup g]))) (replicate N 0, 0, bo4))
              (\<lambda>(ifld, n, bitOffset5). Inr ifld)"
        by simp
    qed
  qed
qed


lemma complex_body_same:
  assumes "length v = length v'" "drop k v = drop k v'" "k \<le> off"
  shows "complex_body v off dl tmpl g N = complex_body v' off dl tmpl g N"
  unfolding complex_body_def Let_def
proof (rule ebind_cong_same, rule spatial_header_same[OF assms], clarify)
  fix h1 h2 m bo
  assume "spatial_header v' off (orderOfSpatialDifferencing g)
            (case numberOfOctetsExtraDescriptors g of None \<Rightarrow> 0 | Some k \<Rightarrow> k)
          = Inr (h1, h2, m, bo)"
  from spatial_header_mono[OF this] assms(3) have "8 * k \<le> bo" by simp
  from unpack_field_same[OF assms(1,2) this]
  show "(if numberOfGroups g = 0
         then Inr (replicate N (fl32 (js_mul (referenceValue tmpl)
                                  (js_pow 10 (- decimalScaleFactor tmpl)))))
         else ebind (unpack_field v off dl tmpl g N bo)
                (\<lambda>ifld. Inr (map (scale_value (referenceValue tmpl)
                                    (js_pow 2 (binaryScaleFactor tmpl))
                                    (js_pow 10 (- decimalScaleFactor tmpl)))
                      (reverse_spatial_differencing (orderOfSpatialDifferencing g) h1 h2 m ifld))))
      = (if numberOfGroups g = 0
         then Inr (replicate N (fl32 (js_mul (referenceValue tmpl)
                                  (js_pow 10 (- decimalScaleFactor tmpl)))))
         else ebind (unpack_field v' off dl tmpl g N bo)
                (\<lambda>ifld. Inr (map (scale_value (referenceValue tmpl)
                                    (js_pow 2 (binaryScaleFactor tmpl))
                                    (js_pow 10 (- decimalScaleFactor tmpl)))
                      (reverse_spatial_differencing (orderOfSpatialDifferencing g) h1 h2 m ifld))))"
    by simp
qed

lemma decodeComplexPacking_same:
  assumes "length v = length v'" "drop k v = drop k v'" "k \<le> off"
  shows "decodeComplexPacking v off dl tmpl g N = decodeComplexPacking v' off dl tmpl g N"
  by (simp add: decodeComplexPacking_def complex_body_same[OF assms])

lemma readUint64_same:
  assumes "length v = length v'" "drop k v = drop k v'" "k \<le> off"
  shows "readUint64 v off = readUint64 v' off"
  using assms(3) by (simp add: readUint64_def accessors_same[OF assms(1,2)])

lemma parseSection1_same:
  assumes "length v = length v'" "drop k v = drop k v'" "k \<le> off"
  shows "parseSection1 v off = parseSection1 v' off"
  using assms(3)
  by (simp add: parseSection1_def accessors_same[OF assms(1,2)] getUint8_same[OF assms(1,2)]
      cong: if_cong option.case_cong)

lemma parseSection2_same:
  assumes "length v = length v'" "drop k v = drop k v'" "k \<le> off"
  shows "parseSection2 v off = parseSection2 v' off"
  using assms(3)
  by (simp add: parseSection2_def accessors_same[OF assms(1,2)] getUint8_same[OF assms(1,2)]
      uint8_view_same[OF assms(1,2)]
      cong: if_cong option.case_cong)

lemma parseGridTemplate0_same:
  assumes "length v = length v'" "drop k v = drop k v'" "k \<le> off"
  shows "parseGridTemplate0 v off = parseGridTemplate0 v' off"
  using assms(3)
  by (simp add: parseGridTemplate0_def accessors_same[OF assms(1,2)]
      getUint8_same[OF assms(1,2)]
      cong: if_cong option.case_cong)

lemma parseSection3_same:
  assumes "length v = length v'" "drop k v = drop k v'" "k \<le> off"
  shows "parseSection3 v off = parseSection3 v' off"
  using assms(3)
  by (simp add: parseSection3_def accessors_same[OF assms(1,2)] getUint8_same[OF assms(1,2)]
      parseGridTemplate0_same[OF assms(1,2)]
      cong: if_cong option.case_cong)

lemma parseSection4_same:
  assumes "length v = length v'" "drop k v = drop k v'" "k \<le> off"
  shows "parseSection4 v off = parseSection4 v' off"
  using assms(3)
  by (simp add: parseSection4_def accessors_same[OF assms(1,2)] getUint8_same[OF assms(1,2)]
      uint8_view_same[OF assms(1,2)]
      cong: if_cong option.case_cong)

lemma parse_base_fields_same:
  assumes "length v = length v'" "drop k v = drop k v'" "k \<le> off"
  shows "parse_base_fields v off = parse_base_fields v' off"
  using assms(3)
  by (simp add: parse_base_fields_def accessors_same[OF assms(1,2)]
      getUint8_same[OF assms(1,2)]
      cong: if_cong option.case_cong)

lemma parse_group_fields_same:
  assumes "length v = length v'" "drop k v = drop k v'" "k \<le> off"
  shows "parse_group_fields v off sp = parse_group_fields v' off sp"
  using assms(3)
  by (simp add: parse_group_fields_def accessors_same[OF assms(1,2)]
      getUint8_same[OF assms(1,2)]
      cong: if_cong option.case_cong)

lemma parseSection5_same:
  assumes "length v = length v'" "drop k v = drop k v'" "k \<le> off"
  shows "parseSection5 v off = parseSection5 v' off"
  using assms(3)
  by (simp add: parseSection5_def accessors_same[OF assms(1,2)] getUint8_same[OF assms(1,2)]
      parse_base_fields_same[OF assms] parse_group_fields_same[OF assms]
      cong: if_cong option.case_cong)

lemma parseSection6_same:
  assumes "length v = length v'" "drop k v = drop k v'" "k \<le> off"
  shows "parseSection6 v off = parseSection6 v' off"
  using assms(3)
  by (simp add: parseSection6_def accessors_same[OF assms(1,2)] getUint8_same[OF assms(1,2)]
      uint8_view_same[OF assms(1,2)]
      cong: if_cong option.case_cong)

lemma parseSection7_same:
  assumes "length v = length v'" "drop k v = drop k v'" "k \<le> off"
  shows "parseSection7 v off s5 = parseSection7 v' off s5"
  using assms(3)
  by (simp add: parseSection7_def accessors_same[OF assms(1,2)] getUint8_same[OF assms(1,2)]
      uint8_view_same[OF assms(1,2)] decodeSimplePacking_same[OF assms(1,2)]
      decodeComplexPacking_same[OF assms(1,2)]
      cong: if_cong option.case_cong)

lemma parseSection8_same:
  assumes "length v = length v'" "drop k v = drop k v'" "k \<le> off"
  shows "parseSection8 v off = parseSection8 v' off"
  by (simp add: parseSection8_def chars4_same[OF assms]
      cong: if_cong option.case_cong)

lemma section_offsets_mono:
  "parseSection2 v off = Inr (s2, o2) \<Longrightarrow> off \<le> o2"
  "parseSection3 v off = Inr (s3, o3) \<Longrightarrow> off \<le> o3"
  "parseSection4 v off = Inr (s4, o4) \<Longrightarrow> off \<le> o4"
  "parseSection5 v off = Inr (s5, o5) \<Longrightarrow> off \<le> o5"
  "parseSection6 v off = Inr (s6, o6) \<Longrightarrow> off \<le> o6"
  "parseSection7 v off t = Inr (s7, o7) \<Longrightarrow> off \<le> o7"
  by (auto simp add: parseSection2_def parseSection3_def parseSection4_def parseSection5_def
      parseSection6_def parseSection7_def ebind_Inr_iff)


lemma section_case_step:
  assumes "(case p of Inl e \<Rightarrow> Some (Inl e) | Inr (s, off') \<Rightarrow> F off' s) = Some y"
    and "\<And>s off'. p = Inr (s, off') \<Longrightarrow> F off' s = Some y \<Longrightarrow> G off' s = Some y"
  shows "(case p of Inl e \<Rightarrow> Some (Inl e) | Inr (s, off') \<Rightarrow> G off' s) = Some y"
  using assms by (cases p) auto

lemma parseSections_le:
  assumes "parseSections v limit off secs = Some y"
  shows "length v = length v' \<longrightarrow> drop k v = drop k v' \<longrightarrow> k \<le> off
           \<longrightarrow> parseSections v' limit off secs = Some y"
proof (rule parseSections.raw_induct
         [where P = "\<lambda>v limit off secs y. length v = length v' \<longrightarrow> drop k v = drop k v'
                        \<longrightarrow> k \<le> off \<longrightarrow> parseSections v' limit off secs = Some y",
          OF _ assms], goal_cases)
  case (1 f v limit off secs y)
  show ?case
  proof (intro impI)
    assume L: "length v = length v'" and D: "drop k v = drop k v'" and K: "k \<le> off"
    have IH: "\<And>off' s'. off \<le> off' \<Longrightarrow> f v limit off' s' = Some y
                \<Longrightarrow> parseSections v' limit off' s' = Some y"
      using 1(1) L D K by auto
    have K4: "k \<le> off + 4" using K by simp
    note same = chars4_same[OF L D K] parseSection8_same[OF L D K]
      getUint8_same[OF L D K4] parseSection2_same[OF L D K] parseSection3_same[OF L D K]
      parseSection4_same[OF L D K] parseSection5_same[OF L D K] parseSection6_same[OF L D K]
      parseSection7_same[OF L D K]
    show "parseSections v' limit off secs = Some y"
    proof (cases "real off < limit")
      case False
      with 1(2) show ?thesis by (subst parseSections.simps) simp
    next
      case lt: True
      show ?thesis
      proof (cases "chars4 v' off")
        case (Inl e)
        with 1(2) lt show ?thesis by (subst parseSections.simps) (simp add: same)
      next
        case c: (Inr n4)
        show ?thesis
        proof (cases "n4 = sevens")
          case True
          with 1(2) lt c show ?thesis by (subst parseSections.simps) (simp add: same)
        next
          case ns: False
          show ?thesis
          proof (cases "getUint8 v' (off + 4)")
            case (Inl e)
            with 1(2) lt c ns show ?thesis by (subst parseSections.simps) (simp add: same)
          next
            case g: (Inr sn)
            from 1(2) lt c ns g show ?thesis
              apply (subst parseSections.simps)
              apply (simp add: same split: if_splits)
                   apply (erule section_case_step, rule IH, erule section_offsets_mono,
                          assumption)+
              done
          qed
        qed
      qed
    qed
  qed
qed

lemma parseSections_same:
  assumes "length v = length v'" "drop k v = drop k v'" "k \<le> off"
  shows "parseSections v limit off secs = parseSections v' limit off secs"
proof (cases "parseSections v limit off secs")
  case (Some y)
  with parseSections_le[OF Some, of v' k] assms show ?thesis by simp
next
  case None
  show ?thesis
  proof (cases "parseSections v' limit off secs")
    case (Some y)
    with parseSections_le[OF Some, of v k] assms None show ?thesis by simp
  next
    case None': None
    with None show ?thesis by simp
  qed
qed

subsection \<open>The message of two grid points\<close>

text \<open>
  The file \<open>wind_file\<close>, section after section, then \<open>getData\<close> and
  \<open>bilinearInterpolate\<close> on its message.
\<close>

lemma wind_length: "length wind_file = 175"
  by (simp add: wind_file_def)

lemma wind_section0:
  "parseSection0 wind_file 0
     = Inr (Some (\<lparr>signature = GRIB, s0_discipline = 0, s0_edition = 2,
                   s0_totalLength = 175\<rparr>, 16))"
  by (simp add: parseSection0_def readUint64_def GRIB_def view_eval fl_eval wind_file_def)

lemma wind_section1:
  "parseSection1 wind_file 16
     = Inr (\<lparr>s1_length = 21, centreId = 7, subCentreId = 0,
             masterTableVersion = 2, localTableVersion = 1,
             significanceOfReferenceTime = 1,
             year = 2025, month = 10, day = 13, hour = 12, minute = 0, second = 0,
             productionStatus = 0, typeOfData = 1\<rparr>, 37)"
  by (simp add: parseSection1_def view_eval wind_file_def)

lemma wind_section3:
  "parseSection3 wind_file 37
     = Inr (\<lparr>s3_length = 72, source = 0, s3_numberOfDataPoints = 2,
             numberOfOctetsForOptional = 0, interpretationOfOptional = 0,
             gridDefinitionTemplateNumber = 0,
             gridTemplate = Some
               \<lparr>shapeOfEarth = 6,
                scaleFactorOfRadiusOfSphericalEarth = 0,
                scaledValueOfRadiusOfSphericalEarth = 0,
                scaleFactorOfEarthMajorAxis = 0,
                scaledValueOfEarthMajorAxis = 0,
                scaleFactorOfEarthMinorAxis = 0,
                scaledValueOfEarthMinorAxis = 0,
                ni = 1, nj = 2,
                basicAngleOfInitialProductionDomain = 0,
                subdivisionsOfBasicAngle = 0,
                latitudeOfFirstGridPoint = 1,
                longitudeOfFirstGridPoint = 0,
                resolutionAndComponentFlags = 48,
                latitudeOfLastGridPoint = 0,
                longitudeOfLastGridPoint = 0,
                latitudeOfLastGridPointFromFile = 0,
                longitudeOfLastGridPointFromFile = 0,
                iDirectionIncrement = 1,
                jDirectionIncrement = 1,
                scanningMode = 0\<rparr>\<rparr>, 109)"
  by (simp add: parseSection3_def parseGridTemplate0_def view_eval fl_eval wind_file_def)

lemma wind_section4:
  "parseSection4 wind_file 109
     = Inr (\<lparr>s4_length = 34, numberOfCoordinateValues = 0,
             productDefinitionTemplateNumber = 0, templateData = wind_template\<rparr>, 143)"
  by (simp add: parseSection4_def view_eval uint8_view_def wind_file_def wind_template_def)

lemma wind_section5:
  "parseSection5 wind_file 143
     = Inr (\<lparr>s5_length = 21, s5_numberOfDataPoints = 2,
             dataRepresentationTemplateNumber = 0,
             template = Some \<lparr>referenceValue = 0, binaryScaleFactor = 0,
                              decimalScaleFactor = 0, numberOfBits = 8,
                              typeOfOriginalFieldValues = 0, groups = None\<rparr>\<rparr>, 164)"
  by (simp add: parseSection5_def parse_base_fields_def getFloat32_def f32_value_def
        view_eval wind_file_def)

lemma wind_values:
  "simple_loop wind_file 8 0 1 1 1352 (Suc (Suc 0)) = Inr [10, 20]"
  by (simp add: scale_value_def readBits_def readBits_loop.simps view_eval fl_eval
        wind_file_def)

lemma pow_one: "js_pow 2 0 = 1" "js_pow 10 0 = 1"
  by (simp_all add: fl_eval)

lemma wind_decode:
  "decodeSimplePacking wind_file 169 dataLength
      \<lparr>referenceValue = 0, binaryScaleFactor = 0, decimalScaleFactor = 0, numberOfBits = 8,
       typeOfOriginalFieldValues = 0, groups = None\<rparr> 2 = Inr [10, 20]"
  by (simp add: decodeSimplePacking_def wind_values[folded numeral_2_eq_2] pow_one Let_def)

lemma wind_s7_head: "getUint32 wind_file 164 = Inr 7" "getUint8 wind_file 168 = Inr 7"
  by (simp_all add: view_eval wind_file_def)

lemma wind_section7:
  "parseSection7 wind_file 164
     (Some \<lparr>s5_length = 21, s5_numberOfDataPoints = 2,
             dataRepresentationTemplateNumber = 0,
             template = Some \<lparr>referenceValue = 0, binaryScaleFactor = 0,
                              decimalScaleFactor = 0, numberOfBits = 8,
                              typeOfOriginalFieldValues = 0, groups = None\<rparr>\<rparr>)
     = Inr (\<lparr>s7_length = 7, data = Some [10, 20], rawData = None\<rparr>, 171)"
  by (simp add: parseSection7_def wind_s7_head wind_decode ebind_def)

lemma parseSections_section3:
  "real offset < limit \<Longrightarrow> chars4 view offset = Inr c \<Longrightarrow> c \<noteq> sevens \<Longrightarrow>
   getUint8 view (offset + 4) = Inr 3 \<Longrightarrow> parseSection3 view offset = Inr (s, offset') \<Longrightarrow>
   parseSections view limit offset secs
     = parseSections view limit offset' (secs\<lparr>section3 := Some s\<rparr>)"
  by (subst parseSections.simps) simp

lemma parseSections_section4:
  "real offset < limit \<Longrightarrow> chars4 view offset = Inr c \<Longrightarrow> c \<noteq> sevens \<Longrightarrow>
   getUint8 view (offset + 4) = Inr 4 \<Longrightarrow> parseSection4 view offset = Inr (s, offset') \<Longrightarrow>
   parseSections view limit offset secs
     = parseSections view limit offset' (secs\<lparr>section4 := Some s\<rparr>)"
  by (subst parseSections.simps) simp

lemma parseSections_section5:
  "real offset < limit \<Longrightarrow> chars4 view offset = Inr c \<Longrightarrow> c \<noteq> sevens \<Longrightarrow>
   getUint8 view (offset + 4) = Inr 5 \<Longrightarrow> parseSection5 view offset = Inr (s, offset') \<Longrightarrow>
   parseSections view limit offset secs
     = parseSections view limit offset' (secs\<lparr>section5 := Some s\<rparr>)"
  by (subst parseSections.simps) simp

lemma parseSections_section7:
  "real offset < limit \<Longrightarrow> chars4 view offset = Inr c \<Longrightarrow> c \<noteq> sevens \<Longrightarrow>
   getUint8 view (offset + 4) = Inr 7 \<Longrightarrow>
   parseSection7 view offset (section5 secs) = Inr (s, offset') \<Longrightarrow>
   parseSections view limit offset secs
     = parseSections view limit offset' (secs\<lparr>section7 := Some s\<rparr>)"
  by (subst parseSections.simps) simp

lemma wind_heads:
  "chars4 wind_file 37 = Inr [0, 0, 0, 72]" "getUint8 wind_file (37 + 4) = Inr 3"
  "chars4 wind_file 109 = Inr [0, 0, 0, 34]" "getUint8 wind_file (109 + 4) = Inr 4"
  "chars4 wind_file 143 = Inr [0, 0, 0, 21]" "getUint8 wind_file (143 + 4) = Inr 5"
  "chars4 wind_file 164 = Inr [0, 0, 0, 7]" "getUint8 wind_file (164 + 4) = Inr 7"
  "chars4 wind_file 171 = Inr sevens"
  by (simp_all add: view_eval wind_file_def sevens_def)

lemma wind_limit: "js_add 0 175 = 175"
  by (simp add: fl_eval)

lemma wind_sections:
  "parseSections wind_file 175 37
     \<lparr>section1 = section1 (sections wind_message), section2 = None, section3 = None,
      section4 = None, section5 = None, section6 = None, section7 = None\<rparr>
   = Some (Inr (sections wind_message, 175))"
proof -
  let ?s0 = "\<lparr>section1 = section1 (sections wind_message), section2 = None, section3 = None,
      section4 = None, section5 = None, section6 = None, section7 = None\<rparr>"
  let ?s3 = "the (section3 (sections wind_message))"
  let ?s4 = "the (section4 (sections wind_message))"
  let ?s5 = "the (section5 (sections wind_message))"
  let ?s7 = "the (section7 (sections wind_message))"
  have "parseSections wind_file 175 37 ?s0
        = parseSections wind_file 175 109 (?s0\<lparr>section3 := Some ?s3\<rparr>)"
    by (rule parseSections_section3[OF _ wind_heads(1) _ wind_heads(2)])
       (simp_all add: sevens_def wind_section3 wind_message_def wind_grid_def)
  also have "\<dots> = parseSections wind_file 175 143
                      (?s0\<lparr>section3 := Some ?s3, section4 := Some ?s4\<rparr>)"
    by (rule parseSections_section4[OF _ wind_heads(3) _ wind_heads(4)])
       (simp_all add: sevens_def wind_section4 wind_message_def)
  also have "\<dots> = parseSections wind_file 175 164
                      (?s0\<lparr>section3 := Some ?s3, section4 := Some ?s4, section5 := Some ?s5\<rparr>)"
    by (rule parseSections_section5[OF _ wind_heads(5) _ wind_heads(6)])
       (simp_all add: sevens_def wind_section5 wind_message_def)
  also have "\<dots> = parseSections wind_file 175 171
                      (?s0\<lparr>section3 := Some ?s3, section4 := Some ?s4, section5 := Some ?s5,
                           section7 := Some ?s7\<rparr>)"
    by (rule parseSections_section7[OF _ wind_heads(7) _ wind_heads(8)])
       (simp_all add: sevens_def wind_section7 wind_message_def)
  also have "\<dots> = Some (Inr (?s0\<lparr>section3 := Some ?s3, section4 := Some ?s4,
                                   section5 := Some ?s5, section7 := Some ?s7\<rparr>, 171 + 4))"
    by (rule parseSections_end[OF _ wind_heads(9)]) simp
  finally show ?thesis
    by (simp add: wind_message_def)
qed

lemma wind_parseMessage: "parseMessage wind_file 0 = Some (Inr (Some wind_message, 175))"
  using wind_sections
  by (simp add: parseMessage_def wind_section0 wind_section1 wind_limit wind_message_def)

lemma wind_parse: "parse wind_file = Some [wind_message]"
  by (simp add: parse_def parse_loop_message[OF _ wind_parseMessage] parse_loop_stop wind_length)

lemma wind_coordinates: "coordinates wind_grid = ([1, 0], [0, 0])"
  by (simp add: coordinates_def wind_grid_def upt_rec fl_eval)

lemma wind_template_bytes:
  "length wind_template = 25"
  "unat (wind_template ! 9) = 0" "unat (wind_template ! 13) = 103"
  "unat (wind_template ! 14) = 0"
  "combine4 wind_template 11 12 13 14 = 2189056"
  "combine4 wind_template 15 16 17 18 = 10"
  by (simp_all add: combine4_def byte_or_zero_def byte_at_def wind_template_def)

lemma wind_level_value: "js_div 10 (js_pow 10 0) = 10"
  by (simp add: fl_eval)

lemma wind_levels:
  "inventory_level wind_template = Some (103, 10)"
  "data_level wind_template = (Some 0, Some 2189056)"
  by (simp_all add: inventory_level_def data_level_def wind_template_bytes wind_level_value)

lemma wind_fields:
  "(case section3 (sections wind_message) of None \<Rightarrow> None | Some s3 \<Rightarrow> gridTemplate s3)
     = Some wind_grid"
  "section4 (sections wind_message)
     = Some \<lparr>s4_length = 34, numberOfCoordinateValues = 0,
              productDefinitionTemplateNumber = 0, templateData = wind_template\<rparr>"
  "section7 (sections wind_message)
     = Some \<lparr>s7_length = 7, data = Some [10, 20], rawData = None\<rparr>"
  by (simp_all add: wind_message_def)

lemma wind_name:
  "getParameterName (byte_at wind_template 0) (byte_at wind_template (Suc 0)) = ''ugrd''"
  by (simp add: getParameterName_def byte_at_def wind_template_def)

lemma wind_collect:
  "collect_message default_options 0 wind_message ([], [], [])
     = ([(''ugrd'', [10, 20])], [(''ugrd'', 1)], [])"
  by (simp add: collect_message_def wind_fields wind_name wind_levels default_options_def
        counted_def Let_def)

lemma wind_collect_103:
  "collect_message (default_options\<lparr>levelType := Some 103\<rparr>) 0 wind_message ([], [], [])
     = ([], [], [])"
  by (simp add: collect_message_def wind_fields wind_name wind_levels default_options_def
        Let_def)

lemma wind_bounds:
  "array_min [1, 0] = Finite 0" "array_max [1, 0] = Finite 1"
  "array_min [0, 0] = Finite 0" "array_max [0, 0] = Finite 0"
  by (simp_all add: array_min_def array_max_def)

lemma wind_grid_fields:
  "ni wind_grid = 1" "nj wind_grid = 2" "jDirectionIncrement wind_grid = 1"
  "iDirectionIncrement wind_grid = 1" "scanningMode wind_grid = 0"
  by (simp_all add: wind_grid_def)

lemma wind_getData: "getData [wind_message] default_options = Some (Inr wind_data)"
proof -
  have o: "messageIndex default_options = 0" "longitudeFormat default_options = ''preserve''"
    "multiLevel default_options = False"
    by (simp_all add: default_options_def)
  show ?thesis
    by (simp add: getData_def o wind_fields wind_coordinates normalize_longitudes_def
          wind_collect wind_bounds wind_grid_fields wind_data_def)
qed

lemma wind_getData_103:
  "getData [wind_message] (default_options\<lparr>levelType := Some 103\<rparr>)
     = Some (Inr (wind_data\<lparr>params := []\<rparr>))"
proof -
  have o: "messageIndex (default_options\<lparr>levelType := Some 103\<rparr>) = 0"
    "longitudeFormat (default_options\<lparr>levelType := Some 103\<rparr>) = ''preserve''"
    "multiLevel (default_options\<lparr>levelType := Some 103\<rparr>) = False"
    by (simp_all add: default_options_def)
  show ?thesis
    by (simp add: getData_def o wind_fields wind_coordinates normalize_longitudes_def
          wind_collect_103 wind_bounds wind_grid_fields wind_data_def)
qed

lemma wind_arith:
  "js_sub 0 0 = 0" "js_sub 1 0 = 1" "js_div 0 1 = 0" "js_div 1 1 = 1"
  "js_add 0 1 = 1" "js_add 1 1 = 2" "js_sub 2 1 = 1" "js_sub 1 1 = 0"
  "js_mul 1 1 = 1" "js_mul 0 1 = 0" "js_add 0 0 = 0" "js_add 1 0 = 1"
  by (simp_all add: fl_eval)

lemma wind_formula: "bilinear_formula 20 20 20 20 0 0 = 20"
  by (simp add: bilinear_formula_def fl_eval)

lemma wind_element: "element_at [10, 20] 1 = Some 20"
  by (simp add: element_at_def)

lemma wind_interpolate:
  "bilinearInterpolate wind_data 1 0 [''ugrd'']
     = Some \<lparr>i_lat = 1, i_lng = 0, indices = Some (0, 0, 1, 1, 0, 0),
             i_values = [(''ugrd'', Some 20)]\<rparr>"
  by (simp add: bilinearInterpolate_def wind_data_def bound_min_def bound_max_def
        data_property_def interpolate_array_def wind_element wind_formula wind_arith)

subsection \<open>The message west of Greenwich\<close>

text \<open>
  The file \<open>west_file\<close>, section after section, then the normalisation of its
  longitudes: the longitude \<open>-0.000001\<close>, stored as a float, is negative; 360 is added
  in double arithmetic and the sum, stored as a float again, is 360.
\<close>

lemma west_length: "length west_file = 175"
  by (simp add: west_file_def)

lemma west_section0:
  "parseSection0 west_file 0
     = Inr (Some (\<lparr>signature = GRIB, s0_discipline = 0, s0_edition = 2,
                   s0_totalLength = 175\<rparr>, 16))"
  by (simp add: parseSection0_def readUint64_def GRIB_def view_eval fl_eval west_file_def)

lemma west_section1:
  "parseSection1 west_file 16 = Inr (section1 (sections wind_message), 37)"
  by (simp add: parseSection1_def view_eval west_file_def wind_message_def)

lemma west_section3:
  "parseSection3 west_file 37
     = Inr (\<lparr>s3_length = 72, source = 0, s3_numberOfDataPoints = 2,
             numberOfOctetsForOptional = 0, interpretationOfOptional = 0,
             gridDefinitionTemplateNumber = 0,
             gridTemplate = Some west_grid\<rparr>, 109)"
  by (simp add: parseSection3_def parseGridTemplate0_def view_eval fl_eval west_file_def
        west_grid_def wind_grid_def)

lemma west_section4:
  "parseSection4 west_file 109
     = Inr (\<lparr>s4_length = 34, numberOfCoordinateValues = 0,
             productDefinitionTemplateNumber = 0, templateData = wind_template\<rparr>, 143)"
  by (simp add: parseSection4_def view_eval uint8_view_def west_file_def wind_template_def)

lemma west_section5:
  "parseSection5 west_file 143
     = Inr (\<lparr>s5_length = 21, s5_numberOfDataPoints = 2,
             dataRepresentationTemplateNumber = 0,
             template = Some \<lparr>referenceValue = 0, binaryScaleFactor = 0,
                              decimalScaleFactor = 0, numberOfBits = 8,
                              typeOfOriginalFieldValues = 0, groups = None\<rparr>\<rparr>, 164)"
  by (simp add: parseSection5_def parse_base_fields_def getFloat32_def f32_value_def
        view_eval west_file_def)

lemma west_values:
  "simple_loop west_file 8 0 1 1 1352 (Suc (Suc 0)) = Inr [10, 20]"
  by (simp add: scale_value_def readBits_def readBits_loop.simps view_eval fl_eval
        west_file_def)

lemma west_decode:
  "decodeSimplePacking west_file 169 dataLength
      \<lparr>referenceValue = 0, binaryScaleFactor = 0, decimalScaleFactor = 0, numberOfBits = 8,
       typeOfOriginalFieldValues = 0, groups = None\<rparr> 2 = Inr [10, 20]"
  by (simp add: decodeSimplePacking_def west_values[folded numeral_2_eq_2] pow_one Let_def)

lemma west_s7_head: "getUint32 west_file 164 = Inr 7" "getUint8 west_file 168 = Inr 7"
  by (simp_all add: view_eval west_file_def)

lemma west_section7:
  "parseSection7 west_file 164
     (Some \<lparr>s5_length = 21, s5_numberOfDataPoints = 2,
             dataRepresentationTemplateNumber = 0,
             template = Some \<lparr>referenceValue = 0, binaryScaleFactor = 0,
                              decimalScaleFactor = 0, numberOfBits = 8,
                              typeOfOriginalFieldValues = 0, groups = None\<rparr>\<rparr>)
     = Inr (\<lparr>s7_length = 7, data = Some [10, 20], rawData = None\<rparr>, 171)"
  by (simp add: parseSection7_def west_s7_head west_decode ebind_def)

lemma west_heads:
  "chars4 west_file 37 = Inr [0, 0, 0, 72]" "getUint8 west_file (37 + 4) = Inr 3"
  "chars4 west_file 109 = Inr [0, 0, 0, 34]" "getUint8 west_file (109 + 4) = Inr 4"
  "chars4 west_file 143 = Inr [0, 0, 0, 21]" "getUint8 west_file (143 + 4) = Inr 5"
  "chars4 west_file 164 = Inr [0, 0, 0, 7]" "getUint8 west_file (164 + 4) = Inr 7"
  "chars4 west_file 171 = Inr sevens"
  by (simp_all add: view_eval west_file_def sevens_def)

lemma west_sections:
  "parseSections west_file 175 37
     \<lparr>section1 = section1 (sections west_message), section2 = None, section3 = None,
      section4 = None, section5 = None, section6 = None, section7 = None\<rparr>
   = Some (Inr (sections west_message, 175))"
proof -
  let ?s0 = "\<lparr>section1 = section1 (sections west_message), section2 = None, section3 = None,
      section4 = None, section5 = None, section6 = None, section7 = None\<rparr>"
  let ?s3 = "the (section3 (sections west_message))"
  let ?s4 = "the (section4 (sections west_message))"
  let ?s5 = "the (section5 (sections west_message))"
  let ?s7 = "the (section7 (sections west_message))"
  have "parseSections west_file 175 37 ?s0
        = parseSections west_file 175 109 (?s0\<lparr>section3 := Some ?s3\<rparr>)"
    by (rule parseSections_section3[OF _ west_heads(1) _ west_heads(2)])
       (simp_all add: sevens_def west_section3 west_message_def)
  also have "\<dots> = parseSections west_file 175 143
                      (?s0\<lparr>section3 := Some ?s3, section4 := Some ?s4\<rparr>)"
    by (rule parseSections_section4[OF _ west_heads(3) _ west_heads(4)])
       (simp_all add: sevens_def west_section4 west_message_def wind_message_def)
  also have "\<dots> = parseSections west_file 175 164
                      (?s0\<lparr>section3 := Some ?s3, section4 := Some ?s4, section5 := Some ?s5\<rparr>)"
    by (rule parseSections_section5[OF _ west_heads(5) _ west_heads(6)])
       (simp_all add: sevens_def west_section5 west_message_def wind_message_def)
  also have "\<dots> = parseSections west_file 175 171
                      (?s0\<lparr>section3 := Some ?s3, section4 := Some ?s4, section5 := Some ?s5,
                           section7 := Some ?s7\<rparr>)"
    by (rule parseSections_section7[OF _ west_heads(7) _ west_heads(8)])
       (simp_all add: sevens_def west_section7 west_message_def wind_message_def)
  also have "\<dots> = Some (Inr (?s0\<lparr>section3 := Some ?s3, section4 := Some ?s4,
                                   section5 := Some ?s5, section7 := Some ?s7\<rparr>, 171 + 4))"
    by (rule parseSections_end[OF _ west_heads(9)]) simp
  finally show ?thesis
    by (simp add: west_message_def wind_message_def)
qed

lemma west_parseMessage: "parseMessage west_file 0 = Some (Inr (Some west_message, 175))"
proof -
  have s1: "section1 (sections west_message) = section1 (sections wind_message)"
    by (simp add: west_message_def)
  show ?thesis
    using west_sections
    by (simp add: parseMessage_def west_section0 west_section1 wind_limit s1)
       (simp add: west_message_def wind_message_def)
qed

lemma west_parse: "parse west_file = Some [west_message]"
  by (simp add: parse_def parse_loop_message[OF _ west_parseMessage] parse_loop_stop west_length)

lemma sub_while_ge360_stop: "\<not> x \<ge> 360 \<Longrightarrow> sub_while_ge360 x = Some x"
  by (subst sub_while_ge360.simps) simp

lemma add_while_lt0_step: "x < 0 \<Longrightarrow> add_while_lt0 x = add_while_lt0 (fl32 (js_add x 360))"
  by (subst add_while_lt0.simps) simp

lemma add_while_lt0_stop: "\<not> x < 0 \<Longrightarrow> add_while_lt0 x = Some x"
  by (subst add_while_lt0.simps) simp

lemma west_longitude:
  "fl32 (js_add (js_div (- 1) 1000000) (js_mul (js_mul 0 1) 1)) < 0"
  "fl32 (js_add (fl32 (js_add (js_div (- 1) 1000000) (js_mul (js_mul 0 1) 1))) 360) = 360"
  by (simp_all add: fl_eval)

lemma west_normalize:
  "normalize_0_360 (fl32 (js_add (js_div (- 1) 1000000) (js_mul (js_mul 0 1) 1))) = Some 360"
  using west_longitude
  by (simp add: normalize_0_360_def sub_while_ge360_stop add_while_lt0_step add_while_lt0_stop)

lemma west_coordinates:
  "coordinates west_grid
     = ([1, 0], [fl32 (js_add (js_div (- 1) 1000000) (js_mul (js_mul 0 1) 1)),
                 fl32 (js_add (js_div (- 1) 1000000) (js_mul (js_mul 0 1) 1))])"
proof -
  have l: "fl32 (js_add 1 (js_mul (js_mul 0 1) (- 1))) = 1"
    "fl32 (js_add 1 (js_mul (js_mul 1 1) (- 1))) = 0"
    by (simp_all add: fl_eval)
  show ?thesis
    by (simp add: coordinates_def west_grid_def wind_grid_def upt_rec l Let_def)
qed

lemma west_fields:
  "(case section3 (sections west_message) of None \<Rightarrow> None | Some s3 \<Rightarrow> gridTemplate s3)
     = Some west_grid"
  "section4 (sections west_message)
     = Some \<lparr>s4_length = 34, numberOfCoordinateValues = 0,
              productDefinitionTemplateNumber = 0, templateData = wind_template\<rparr>"
  "section7 (sections west_message)
     = Some \<lparr>s7_length = 7, data = Some [10, 20], rawData = None\<rparr>"
  by (simp_all add: west_message_def wind_message_def)

lemma west_collect:
  "collect_message (default_options\<lparr>longitudeFormat := ''0-360''\<rparr>) 0 west_message ([], [], [])
     = ([(''ugrd'', [10, 20])], [(''ugrd'', 1)], [])"
  by (simp add: collect_message_def west_fields wind_name wind_levels default_options_def
        counted_def Let_def)

lemma west_bounds:
  "array_min [360, 360] = Finite 360" "array_max [360, 360] = Finite 360"
  by (simp_all add: array_min_def array_max_def)

lemma west_grid_fields:
  "ni west_grid = 1" "nj west_grid = 2" "jDirectionIncrement west_grid = 1"
  "iDirectionIncrement west_grid = 1" "scanningMode west_grid = 0"
  by (simp_all add: west_grid_def wind_grid_def)

lemma west_getData:
  "getData [west_message] (default_options\<lparr>longitudeFormat := ''0-360''\<rparr>)
     = Some (Inr west_data)"
proof -
  have o: "messageIndex (default_options\<lparr>longitudeFormat := ''0-360''\<rparr>) = 0"
    "longitudeFormat (default_options\<lparr>longitudeFormat := ''0-360''\<rparr>) = ''0-360''"
    "multiLevel (default_options\<lparr>longitudeFormat := ''0-360''\<rparr>) = False"
    by (simp_all add: default_options_def)
  show ?thesis
    by (simp add: getData_def o west_fields west_coordinates normalize_longitudes_def
          west_normalize west_collect wind_bounds west_bounds west_grid_fields west_data_def)
qed

subsection \<open>The two messages of the calm\<close>


































section \<open>The claims\<close>

text \<open>
  C1.  The claim: for a grid definition section with template 0 the parser reads
  \<open>ni\<close>, \<open>nj\<close>, \<open>lat_first\<close>, \<open>lon_first\<close>, the resolution and component flags, the
  two increments and the scanning mode at the offsets 30, 34, 46, 50, 54, 63, 67 and 71
  counted from the template base, which is the section's offset plus 14.  It fails on
  \<open>grid_section\<close>: the section is parsed, \<open>ni\<close> is 5, and the 32-bit integer at
  template base plus 30 (byte 44 of the section) is 0.
\<close>

theorem grid_offsets_not_template_relative:
  "map_sum id (\<lambda>(s3, offset'). map_option ni (gridTemplate s3)) (parseSection3 grid_section 0)
     = Inr (Some 5)
   \<and> getUint32 grid_section (0 + 14 + 30) = Inr 0"
  by (simp add: parseSection3_def parseGridTemplate0_def view_eval grid_section_def Let_def)

text \<open>
  C1, amended.  The offsets 30, 34, 46, 50, 54, 63, 67 and 71 are counted from the
  start of the section (they are 16, 20, 32, 36, 40, 49, 53 and 57 from the template
  base): whenever \<open>parseSection3\<close> succeeds on a section with template number 0, the
  grid template is present, \<open>ni\<close>, \<open>nj\<close>, the flags and the scanning mode are the unsigned
  integers at section offsets 30, 34, 54 and 71, the first latitude and longitude are
  the signed 32-bit integers at 46 and 50 divided by \<open>1e6\<close> (a double division), and the
  increments are the unsigned 32-bit integers at 63 and 67 divided by \<open>1e6\<close>.
\<close>

theorem grid_offsets_section_relative:
  assumes "parseSection3 view offset = Inr (s3, offset')"
    and "gridDefinitionTemplateNumber s3 = 0"
  shows "\<exists>g latFirst lonFirst iInc jInc.
           gridTemplate s3 = Some g
         \<and> getUint32 view (offset + 30) = Inr (ni g)
         \<and> getUint32 view (offset + 34) = Inr (nj g)
         \<and> getInt32 view (offset + 46) = Inr latFirst
         \<and> latitudeOfFirstGridPoint g = js_div (of_int latFirst) 1000000
         \<and> getInt32 view (offset + 50) = Inr lonFirst
         \<and> longitudeOfFirstGridPoint g = js_div (of_int lonFirst) 1000000
         \<and> getUint8 view (offset + 54) = Inr (resolutionAndComponentFlags g)
         \<and> getUint32 view (offset + 63) = Inr iInc
         \<and> iDirectionIncrement g = js_div (real iInc) 1000000
         \<and> getUint32 view (offset + 67) = Inr jInc
         \<and> jDirectionIncrement g = js_div (real jInc) 1000000
         \<and> getUint8 view (offset + 71) = Inr (scanningMode g)"
  using assms
  by (auto simp: parseSection3_def parseGridTemplate0_def ebind_Inr_iff Let_def add.assoc
      split: if_splits)

theorem grid_offsets_section_relative_witness:
  "(case parseSection3 grid_section 0 of
      Inl e \<Rightarrow> False
    | Inr (s3, offset') \<Rightarrow>
        gridDefinitionTemplateNumber s3 = 0
        \<and> (\<exists>g. gridTemplate s3 = Some g \<and> getUint32 grid_section 30 = Inr (ni g) \<and> ni g = 5))"
proof -
  obtain s3 offset' where p: "parseSection3 grid_section 0 = Inr (s3, offset')"
    and t: "gridDefinitionTemplateNumber s3 = 0"
    by (simp add: parseSection3_def parseGridTemplate0_def view_eval grid_section_def Let_def)
  have n: "getUint32 grid_section 30 = Inr 5"
    by (simp add: view_eval grid_section_def)
  from grid_offsets_section_relative[OF p t] n p t show ?thesis
    by auto
qed

text \<open>
  C2.  The claim: for every complex-packed message with spatial differencing of order
  1 the decoder sets \<open>I[0] = h1\<close> and replaces \<open>I[n]\<close> by \<open>I[n] + g_min + I[n-1]\<close> for
  \<open>n \<ge> 1\<close> (order 2: \<open>I[0] = h1\<close>, \<open>I[1] = h2\<close> and
  \<open>I[n] + g_min + 2 I[n-1] - I[n-2]\<close> for \<open>n \<ge> 2\<close>), with \<open>g_min\<close> decoded from the
  header as a sign bit and a magnitude.  It fails in two ways.  With three extra
  descriptor octets the header is not read at all: on the header bytes
  \<open>00 00 64 80 00 02\<close> (\<open>h1 = 100\<close>, sign 1, magnitude 2) the decoder goes on with
  \<open>h1 = 0\<close> and \<open>g_min = 0\<close>.  And the field is an Int32Array: from \<open>I = [_, 2147483647]\<close>
  with \<open>h1 = 1\<close>, \<open>g_min = 0\<close> the new \<open>I[1]\<close> is \<open>-2147483648\<close>, not
  \<open>2147483647 + 0 + 1\<close>.  Moreover a payload without groups is decoded to the
  constant field and a payload that ends inside the header to zeros, whatever \<open>h1\<close> is
  (here 100, the field being 0).
\<close>

theorem spatial_differencing_fails:
  "spatial_header [0, 0, 100, 0x80, 0, 2] 0 1 3 = Inr (0, 0, 0, 0)
   \<and> readBits [0, 0, 100, 0x80, 0, 2] 0 24 = Inr 100
   \<and> readBits [0, 0, 100, 0x80, 0, 2] 24 1 = Inr 1
   \<and> readBits [0, 0, 100, 0x80, 0, 2] 25 23 = Inr 2
   \<and> reverse_spatial_differencing 1 1 0 0 [2147483647, 2147483647] = [1, - 2147483648]
   \<and> decodeComplexPacking [100, 0x82, 2] 0 3 differenced_template
        (differenced_groups\<lparr>numberOfGroups := 0\<rparr>) 3 = replicate 3 0
   \<and> decodeComplexPacking [100] 0 1 differenced_template differenced_groups 3 = replicate 3 0"
proof -
  have a: "spatial_header [0, 0, 100, 0x80, 0, 2] 0 1 3 = Inr (0, 0, 0, 0)
   \<and> readBits [0, 0, 100, 0x80, 0, 2] 0 24 = Inr 100
   \<and> readBits [0, 0, 100, 0x80, 0, 2] 24 1 = Inr 1
   \<and> readBits [0, 0, 100, 0x80, 0, 2] 25 23 = Inr 2
   \<and> reverse_spatial_differencing 1 1 0 0 [2147483647, 2147483647] = [1, - 2147483648]"
    by (simp add: spatial_header_def readBits_def ebind_def readBits_loop.simps getUint8_def
         reverse_spatial_differencing_def reverse_order1_def order1_step_def to_int32_def upt_rec)
  have z: "fl32 (js_mul 0 1) = 0"
    by (simp add: fl_eval)
  have b: "decodeComplexPacking [100, 0x82, 2] 0 3 differenced_template
        (differenced_groups\<lparr>numberOfGroups := 0\<rparr>) 3 = replicate 3 0"
    by (simp add: decodeComplexPacking_def complex_body_def differenced_fields
          differenced_header[simplified] differenced_powers z ebind_def)
  have h: "spatial_header [100] 0 1 1 = Inl (OffsetOutside 1 1)"
    by (simp add: spatial_header_def read_descriptors_def readBits_def ebind_def
          readBits_loop.simps getUint8_def)
  have c: "decodeComplexPacking [100] 0 1 differenced_template differenced_groups 3
           = replicate 3 0"
    by (simp add: decodeComplexPacking_def complex_body_def differenced_fields
          h[simplified] ebind_def)
  from a b c show ?thesis by blast
qed

text \<open>
  C2, amended.  Take a complex-packed payload with at least one group, spatial
  differencing of order 1 or 2 and 1 or 2 extra descriptor octets (\<open>ne\<close>), on which the
  \<open>try\<close> block of \<open>decodeComplexPacking\<close> ends without an exception with the field
  \<open>field\<close> (when it does not, the decoder returns zeros, and without groups it returns a
  constant field; neither is differenced back).  Then the header gives \<open>h1\<close> (and \<open>h2\<close>
  for order 2) as the unsigned values of \<open>8 ne\<close> bits each, then a sign bit and a
  magnitude of \<open>8 ne - 1\<close> bits, and \<open>g_min\<close> is the magnitude, negated when the sign
  bit is 1; the groups are unpacked from the bit after the header, without alignment,
  into the integer field \<open>I\<close> of \<open>N\<close> values; and \<open>field\<close> is the scaling of the field
  \<open>J\<close> with \<open>J[0] = h1\<close> and, for order 1, \<open>J[n] = I[n] + g_min + J[n-1]\<close> for
  \<open>n \<ge> 1\<close>; for order 2, \<open>J[1] = h2\<close> and \<open>J[n] = I[n] + g_min + 2 J[n-1] - J[n-2]\<close>
  for \<open>n \<ge> 2\<close>; each sum reduced to a signed 32-bit integer (\<open>to_int32\<close>), as the
  Int32Array stores it.
\<close>

theorem spatial_differencing_in_decoder:
  assumes body: "complex_body view offset dataLength tmpl g N = Inr field"
    and groups: "numberOfGroups g \<noteq> 0"
    and ord: "orderOfSpatialDifferencing g = 1 \<or> orderOfSpatialDifferencing g = 2"
    and extra: "numberOfOctetsExtraDescriptors g = Some ne"
    and ne: "ne = 1 \<or> ne = 2"
  shows
   "\<exists>h1 h2 gmin isign magnitude I.
        readBits view (offset * 8) (ne * 8) = Inr h1
      \<and> (orderOfSpatialDifferencing g = 2 \<longrightarrow>
           readBits view (offset * 8 + ne * 8) (ne * 8) = Inr h2)
      \<and> readBits view (offset * 8 + orderOfSpatialDifferencing g * (ne * 8)) 1 = Inr isign
      \<and> readBits view (offset * 8 + orderOfSpatialDifferencing g * (ne * 8) + 1) (ne * 8 - 1)
          = Inr magnitude
      \<and> gmin = (if isign = 1 then - magnitude else magnitude)
      \<and> unpack_field view offset dataLength tmpl g N
            (offset * 8 + (orderOfSpatialDifferencing g + 1) * (ne * 8)) = Inr I
      \<and> length I = N
      \<and> (let J = reverse_spatial_differencing (orderOfSpatialDifferencing g) h1 h2 gmin I in
           field = map (scale_value (referenceValue tmpl) (js_pow 2 (binaryScaleFactor tmpl))
                          (js_pow 10 (- decimalScaleFactor tmpl))) J
         \<and> length J = N
         \<and> (0 < N \<longrightarrow> J ! 0 = h1)
         \<and> (orderOfSpatialDifferencing g = 1 \<longrightarrow>
              (\<forall>n. 1 \<le> n \<and> n < N \<longrightarrow> J ! n = to_int32 (I ! n + gmin + J ! (n - 1))))
         \<and> (orderOfSpatialDifferencing g = 2 \<longrightarrow>
              (1 < N \<longrightarrow> J ! 1 = h2)
            \<and> (\<forall>n. 2 \<le> n \<and> n < N \<longrightarrow>
                   J ! n = to_int32 (I ! n + gmin + 2 * J ! (n - 1) - J ! (n - 2)))))"
proof -
  let ?o = "orderOfSpatialDifferencing g"
  from body groups extra obtain h1 h2 gmin bo I where
    hdr: "spatial_header view offset ?o ne = Inr (h1, h2, gmin, bo)"
    and unp: "unpack_field view offset dataLength tmpl g N bo = Inr I"
    and fld: "field = map (scale_value (referenceValue tmpl) (js_pow 2 (binaryScaleFactor tmpl))
                             (js_pow 10 (- decimalScaleFactor tmpl)))
                        (reverse_spatial_differencing ?o h1 h2 gmin I)"
    by (auto simp: complex_body_def Let_def ebind_Inr_iff)
  from hdr ne ord
  have rd: "read_descriptors view (offset * 8) (ne * 8) ?o = Inr (h1, h2, gmin, bo)"
    by (auto simp: spatial_header_def Let_def split: if_splits)
  from read_descriptors_cursor[OF rd ord] ne
  have bo: "bo = offset * 8 + (?o + 1) * (ne * 8)" by auto
  from unpack_field_length[OF unp] have len: "length I = N" .
  from reversal_after_header[OF hdr ne ord, of I] unp fld len show ?thesis
    unfolding bo Let_def by blast
qed


theorem spatial_differencing_in_decoder_witness:
  "complex_body [100, 0x82, 2] 0 3 differenced_template differenced_groups 3
     = Inr [100, 100, 100]
   \<and> unpack_field [100, 0x82, 2] 0 3 differenced_template differenced_groups 3 16 = Inr [2, 2, 2]
   \<and> reverse_spatial_differencing 1 100 0 (- 2) [2, 2, 2] = [100, 100, 100]
   \<and> (\<exists>h1 h2 gmin isign magnitude I.
        readBits [100, 0x82, 2] (0 * 8) (1 * 8) = Inr h1
      \<and> readBits [100, 0x82, 2] (0 * 8 + 1 * (1 * 8)) 1 = Inr isign
      \<and> readBits [100, 0x82, 2] (0 * 8 + 1 * (1 * 8) + 1) (1 * 8 - 1) = Inr magnitude
      \<and> gmin = (if isign = 1 then - magnitude else magnitude)
      \<and> unpack_field [100, 0x82, 2] 0 3 differenced_template differenced_groups 3
            (0 * 8 + (1 + 1) * (1 * 8)) = Inr I
      \<and> length I = 3
      \<and> (let J = reverse_spatial_differencing 1 h1 h2 gmin I in
           [100, 100, 100] = map (scale_value 0 (js_pow 2 0) (js_pow 10 (- 0))) J
         \<and> length J = 3
         \<and> J ! 0 = h1
         \<and> (\<forall>n. 1 \<le> n \<and> n < 3 \<longrightarrow> J ! n = to_int32 (I ! n + gmin + J ! (n - 1)))))"
proof -
  have one: "(1 :: nat) = 1 \<or> (1 :: nat) = 2" by simp
  have ord: "orderOfSpatialDifferencing differenced_groups = 1
             \<or> orderOfSpatialDifferencing differenced_groups = 2"
    by (simp add: differenced_fields)
  from spatial_differencing_in_decoder
         [OF differenced_body differenced_fields(3) ord differenced_fields(2) one]
  have "\<exists>h1 h2 gmin isign magnitude I.
        readBits [100, 0x82, 2] (0 * 8) (1 * 8) = Inr h1
      \<and> readBits [100, 0x82, 2] (0 * 8 + 1 * (1 * 8)) 1 = Inr isign
      \<and> readBits [100, 0x82, 2] (0 * 8 + 1 * (1 * 8) + 1) (1 * 8 - 1) = Inr magnitude
      \<and> gmin = (if isign = 1 then - magnitude else magnitude)
      \<and> unpack_field [100, 0x82, 2] 0 3 differenced_template differenced_groups 3
            (0 * 8 + (1 + 1) * (1 * 8)) = Inr I
      \<and> length I = 3
      \<and> (let J = reverse_spatial_differencing 1 h1 h2 gmin I in
           [100, 100, 100] = map (scale_value 0 (js_pow 2 0) (js_pow 10 (- 0))) J
         \<and> length J = 3
         \<and> J ! 0 = h1
         \<and> (\<forall>n. 1 \<le> n \<and> n < 3 \<longrightarrow> J ! n = to_int32 (I ! n + gmin + J ! (n - 1))))"
    by (simp add: differenced_fields Let_def)
  with differenced_body differenced_unpack differenced_reversal show ?thesis
    by blast
qed


text \<open>
  C3.  The claim: a simply packed field with 0 bits per value is constant and each of
  its N values is \<open>R \<times> 10^(-D)\<close>.  With \<open>R = 5\<close>, \<open>D = 1\<close> and \<open>N = 9\<close> the source
  returns nine times 5, the reference value itself, where \<open>R \<times> 10^(-D)\<close> is \<open>1/2\<close>
  (also as the source computes it, \<open>R * Math.pow(10, -D)\<close>, in the branch of
  \<open>decodeComplexPacking\<close> for a field without groups).
\<close>

theorem simple_packing_constant_ignores_decimal_scale:
  "decodeSimplePacking [] 0 0
      \<lparr>referenceValue = 5, binaryScaleFactor = 0, decimalScaleFactor = 1, numberOfBits = 0,
       typeOfOriginalFieldValues = 0, groups = None\<rparr> 9 = Inr (replicate 9 5)
   \<and> fl32 (js_mul 5 (js_pow 10 (- 1))) = 1 / 2"
  by (simp add: decodeSimplePacking_def fl_eval)

text \<open>
  C4.  The claim: \<open>parse\<close> terminates on every buffer, in particular when fewer than 16
  bytes follow the last complete message.  On the complete message \<open>edition1_file\<close>
  followed by one more byte, and on a buffer of one byte, the loop of \<open>parse\<close> has no
  result: \<open>parseSection0\<close> returns \<open>null\<close> for the tail, the cursor stays, and the
  \<open>while\<close> loop runs forever.
\<close>

theorem parse_loops_on_short_tail:
  "parse (edition1_file @ [10]) = None \<and> parse [0] = None"
proof
  have s0: "parseSection0 (edition1_file @ [10]) 0
     = Inr (Some (\<lparr>signature = GRIB, s0_discipline = 0, s0_edition = 1,
                   s0_totalLength = 41\<rparr>, 16))"
    by (simp add: parseSection0_def readUint64_def GRIB_def view_eval fl_eval edition1_file_def)
  have s1: "parseSection1 (edition1_file @ [10]) 16
     = Inr (\<lparr>s1_length = 21, centreId = 0, subCentreId = 0,
             masterTableVersion = 0, localTableVersion = 0,
             significanceOfReferenceTime = 0,
             year = 0, month = 0, day = 0, hour = 0, minute = 0, second = 0,
             productionStatus = 0, typeOfData = 0\<rparr>, 37)"
    by (simp add: parseSection1_def view_eval edition1_file_def)
  have s8: "chars4 (edition1_file @ [10]) 37 = Inr sevens"
    by (simp add: view_eval edition1_file_def sevens_def)
  have "\<exists>m. parseMessage (edition1_file @ [10]) 0 = Some (Inr (Some m, 41))"
    by (simp add: parseMessage_def s0 s1 edition1_limit parseSections_end s8)
  then obtain m where m: "parseMessage (edition1_file @ [10]) 0 = Some (Inr (Some m, 41))" ..
  have "parse_loop (edition1_file @ [10]) 0 [] = parse_loop (edition1_file @ [10]) 41 ([] @ [m])"
    by (rule parse_loop_message[OF _ m]) (simp add: edition1_length)
  also have "\<dots> = None"
    by (rule parse_loop_tail) (simp_all add: edition1_length)
  finally show "parse (edition1_file @ [10]) = None"
    by (simp add: parse_def)
next
  show "parse [0] = None"
    by (simp add: parse_def parse_loop_tail)
qed

text \<open>
  C5.  The claim: for every parsed template-0 message, of any scanning mode, the
  interpolation at the coordinates of a grid node \<open>k\<close> returns the value of that node,
  \<open>d[p][k]\<close>, within \<open>1e-5\<close>.  The file \<open>wind_file\<close> has scanning mode 0, rows from
  north to south: \<open>getData\<close> gives the latitudes \<open>[1, 0]\<close> and the values \<open>[10, 20]\<close>.
  At the coordinates of node 0 \<open>bilinearInterpolate\<close> counts the row from \<open>latMin\<close>
  upwards, finds row 1 and returns 20, the value of node 1, where node 0 has 10.
\<close>

theorem bilinear_at_node_returns_other_row:
  "parse wind_file = Some [wind_message]
   \<and> getData [wind_message] default_options = Some (Inr wind_data)
   \<and> map_option scanningMode
        (case section3 (sections wind_message) of None \<Rightarrow> None | Some s3 \<Rightarrow> gridTemplate s3)
       = Some 0
   \<and> lat wind_data = [1, 0] \<and> lng wind_data = [0, 0]
   \<and> map_option (\<lambda>arr. arr ! 0) (data_property wind_data ''ugrd'') = Some 10
   \<and> bilinearInterpolate wind_data (lat wind_data ! 0) (lng wind_data ! 0) [''ugrd'']
       = Some \<lparr>i_lat = 1, i_lng = 0, indices = Some (0, 0, 1, 1, 0, 0),
               i_values = [(''ugrd'', Some 20)]\<rparr>"
proof -
  have "lat wind_data = [1, 0]" "lng wind_data = [0, 0]"
    "data_property wind_data ''ugrd'' = Some [10, 20]"
    by (simp_all add: wind_data_def data_property_def)
  then show ?thesis
    by (simp add: wind_parse wind_getData wind_fields wind_grid_fields wind_interpolate)
qed




text \<open>
  C7.  The claim: a message whose edition byte is not 2 fails to parse, with an
  UnsupportedEdition error, so that every parsed message has edition 2.  The source
  has no test of the edition: \<open>edition1_file\<close>, whose edition byte is 1, parses to one
  message, with edition 1.
\<close>

theorem edition_not_checked:
  "map_option (map edition) (parse edition1_file) = Some [1]"
  by (simp add: parse_def parse_loop_message[OF _ edition1_message] parse_loop_stop
        edition1_length)

text \<open>
  C7, amended.  The parser does not use the edition: it copies the byte at offset 7 of
  the indicator section into the message and never looks at it.  Writing any byte \<open>b\<close>
  there changes nothing in the result of \<open>parseMessage\<close> at that offset (the same
  exception, the same \<open>null\<close>, the same run without end, the same sections and the
  same cursor) other than the edition of the parsed message, which is \<open>b\<close>.  So a
  message with another edition than 2 parses exactly when the same message with
  edition 2 does.
\<close>

theorem edition_not_used:
  "parseMessage (view[offset + 7 := b]) offset
     = map_option (map_sum id (\<lambda>(m, off'). (map_option (\<lambda>m. m\<lparr>edition := unat b\<rparr>) m, off')))
         (parseMessage view offset)"
proof (cases "offset + 16 > length view")
  case True
  then show ?thesis by (simp add: parseMessage_def parseSection0_def)
next
  case False
  let ?v = "view[offset + 7 := b]"
  have L: "length ?v = length view" by simp
  have D: "drop (offset + 8) ?v = drop (offset + 8) view" by simp
  have c: "chars4 ?v offset = chars4 view offset"
    using False by (simp add: chars4_def getUint8_def)
  have d: "getUint8 ?v (offset + 6) = getUint8 view (offset + 6)"
    using False by (simp add: getUint8_def)
  have e: "getUint8 ?v (offset + 7) = Inr (unat b)"
    using False by (simp add: getUint8_def)
  have e': "\<exists>x. getUint8 view (offset + 7) = Inr x"
    using False by (simp add: getUint8_def)
  have t: "readUint64 ?v (offset + 8) = readUint64 view (offset + 8)"
    by (rule readUint64_same[OF L D]) simp
  have s1: "parseSection1 ?v (offset + 16) = parseSection1 view (offset + 16)"
    by (rule parseSection1_same[OF L D]) simp
  have ss: "\<And>lim off' secs. parseSection1 view (offset + 16) = Inr (s, off')
              \<Longrightarrow> parseSections ?v lim off' secs = parseSections view lim off' secs" for s
    by (rule parseSections_same[OF L D])
       (auto simp add: parseSection1_def ebind_Inr_iff split: if_splits)
  from e' obtain x where e'': "getUint8 view (offset + 7) = Inr x" by blast
  show ?thesis
    using False
    by (auto simp add: parseMessage_def parseSection0_def c d e e'' t s1 ss ebind_def
             split: sum.splits option.splits prod.splits if_splits)
qed

text \<open>
  C8.  The claim: \<open>readBits(bit_offset, n)\<close> returns, for every \<open>n\<close> with
  \<open>0 \<le> n \<le> 32\<close> that fits in the buffer, the unsigned value of the bits, a number in
  \<open>[0, 2^n)\<close>.  At \<open>n = 32\<close> with the first bit set the 32-bit shift of the source
  gives a negative number: on the four bytes \<open>80 00 00 00\<close> the read of 32 bits at bit 0
  succeeds and returns \<open>-2147483648\<close>, not \<open>2147483648\<close>.
\<close>

theorem readBits_32_negative:
  "readBits [0x80, 0, 0, 0] 0 32 = Inr (- 2147483648)"
  by (simp add: readBits_def ebind_def readBits_loop.simps getUint8_def)

text \<open>
  C9.  The claim: after the normalisation of \<open>getData\<close> every longitude lies in
  \<open>[0, 360)\<close> when \<open>longitudeFormat\<close> is \<open>'0-360'\<close>.  The longitudes are elements of a
  Float32Array.  In \<open>west_file\<close> both grid points have the longitude \<open>-0.000001\<close>; the
  loop \<open>while (lng[i] < 0) lng[i] += 360\<close> stores the float nearest to
  \<open>359.999999\<close>, which is 360, and ends.  \<open>getData\<close> returns the longitudes
  \<open>[360, 360]\<close>.
\<close>

theorem normalised_longitude_is_360:
  "parse west_file = Some [west_message]
   \<and> getData [west_message] (default_options\<lparr>longitudeFormat := ''0-360''\<rparr>)
       = Some (Inr west_data)
   \<and> lng west_data = [360, 360]"
  by (simp add: west_parse west_getData) (simp add: west_data_def)

text \<open>
  C10.  The claim: for a message with at least 19 template bytes in section 4, the
  level type and value that the filters of \<open>getData\<close> compare are those that
  \<open>getInventory\<close> derives for the inventory line, so that filtering with the level
  type of a message's own inventory line never excludes the message.  \<open>getInventory\<close>
  reads the type at byte 13 and the value at bytes 14 to 18; \<open>getData\<close> reads the type
  at byte 9 and the value at bytes 11 to 14, which are the forecast time, the type and
  the scale factor.  For the message of \<open>wind_file\<close>, with 25 template bytes, the
  inventory has the level type 103 and the value 10, the filters compare the type 0 and
  the value 2189056, and \<open>getData\<close> with \<open>levelType: 103\<close> returns no parameter array
  where \<open>getData\<close> without a filter returns \<open>ugrd\<close>.
\<close>

theorem level_filter_excludes_inventory_level:
  "parse wind_file = Some [wind_message]
   \<and> map_option templateData (section4 (sections wind_message)) = Some wind_template
   \<and> length wind_template = 25
   \<and> inventory_level wind_template = Some (103, 10)
   \<and> data_level wind_template = (Some 0, Some 2189056)
   \<and> getData [wind_message] default_options = Some (Inr wind_data)
   \<and> params wind_data = [(''ugrd'', [10, 20])]
   \<and> getData [wind_message] (default_options\<lparr>levelType := Some 103\<rparr>)
       = Some (Inr (wind_data\<lparr>params := []\<rparr>))"
  by (simp add: wind_parse wind_fields wind_template_bytes wind_levels wind_getData
        wind_getData_103) (simp add: wind_data_def)

end
